theory Spec2Isabelle
  imports Main "HOL-Library.Word" "HOL-Library.Multiset" "HOL-Library.AList"
    "HOL-Library.Char_ord" "HOL-Library.List_Lexorder"
begin

section \<open>Go values used by the configuration synthesis\<close>

text \<open>
  A Go run-time panic is a value of the model: every function that dereferences a
  pointer or indexes a slice returns \<open>go_panic + 'a\<close>, with \<open>Inl\<close> the panic.
\<close>

datatype go_panic = NilPointerDereference | IndexOutOfRange | AssignmentToEntryInNilMap

type_synonym int32 = "32 word"

text \<open>\<open>corev1.Protocol\<close> and \<open>networking.PathType\<close> are Go string types.\<close>

type_synonym Protocol = string
type_synonym PathType = string

definition ProtocolTCP :: Protocol where "ProtocolTCP = ''TCP''"
definition ProtocolUDP :: Protocol where "ProtocolUDP = ''UDP''"
definition ServiceTypeExternalName :: string where "ServiceTypeExternalName = ''ExternalName''"
definition ServiceTrafficDistributionPreferClose :: string where
  "ServiceTrafficDistributionPreferClose = ''PreferClose''"

subsection \<open>strconv and strings\<close>

definition digit_char :: "nat \<Rightarrow> char" where
  "digit_char d = ''0123456789'' ! d"

fun nat_digits :: "nat \<Rightarrow> string" where
  "nat_digits n = (if n < 10 then [digit_char n] else nat_digits (n div 10) @ [digit_char (n mod 10)])"

declare nat_digits.simps [simp del]

text \<open>\<open>strconv.Itoa\<close>; \<open>fmt.Sprintf("%v", x)\<close> prints an integer the same way.\<close>

definition Itoa :: "int \<Rightarrow> string" where
  "Itoa i = (if i < 0 then CHR ''-'' # nat_digits (nat (- i)) else nat_digits (nat i))"

definition Sprintf_v :: "int32 \<Rightarrow> string" where
  "Sprintf_v p = Itoa (sint p)"

definition is_digit :: "char \<Rightarrow> bool" where
  "is_digit c = (48 \<le> (of_char c :: nat) \<and> (of_char c :: nat) \<le> 57)"

definition digit_val :: "char \<Rightarrow> int" where
  "digit_val c = int (of_char c) - 48"

definition maxInt :: int where "maxInt = 2 ^ 63 - 1"
definition minInt :: int where "minInt = - (2 ^ 63)"

text \<open>
  \<open>strconv.Atoi\<close> on a 64-bit platform: an optional sign, then one or more decimal
  digits. The result is the value and whether \<open>err \<noteq> nil\<close>; a syntax error gives 0, a
  range error the nearest bound.
\<close>

definition Atoi :: "string \<Rightarrow> int \<times> bool" where
  "Atoi s =
     (let (neg, ds) = (case s of
                         [] \<Rightarrow> (False, [])
                       | c # cs \<Rightarrow> if c = CHR ''-'' then (True, cs)
                                  else if c = CHR ''+'' then (False, cs) else (False, s))
      in if ds = [] \<or> \<not> list_all is_digit ds then (0, True)
         else let n = foldl (\<lambda>a c. 10 * a + digit_val c) 0 ds;
                  v = (if neg then - n else n)
              in if maxInt < v then (maxInt, True)
                 else if v < minInt then (minInt, True)
                 else (v, False))"

text \<open>\<open>strings.HasSuffix\<close>, \<open>strings.TrimSuffix\<close>, \<open>strings.Split\<close> with a one-byte separator.\<close>

definition HasSuffix :: "string \<Rightarrow> string \<Rightarrow> bool" where
  "HasSuffix s suffix = (length suffix \<le> length s \<and> drop (length s - length suffix) s = suffix)"

definition TrimSuffix :: "string \<Rightarrow> string \<Rightarrow> string" where
  "TrimSuffix s suffix = (if HasSuffix s suffix then take (length s - length suffix) s else s)"

fun Split :: "string \<Rightarrow> char \<Rightarrow> string list" where
  "Split [] sep = [[]]"
| "Split (c # cs) sep =
     (if c = sep then [] # Split cs sep
      else (case Split cs sep of [] \<Rightarrow> [[c]] | h # t \<Rightarrow> (c # h) # t))"

text \<open>\<open>net.JoinHostPort\<close>: a host with a colon is bracketed.\<close>

definition JoinHostPort :: "string \<Rightarrow> string \<Rightarrow> string" where
  "JoinHostPort host port =
     (if CHR '':'' \<in> set host then ''['' @ host @ '']:'' @ port else host @ '':'' @ port)"

subsection \<open>Kubernetes API objects\<close>

text \<open>\<open>intstr.Type\<close> with its constants \<open>intstr.Int\<close> and \<open>intstr.String\<close>.\<close>

datatype IntstrType = intstr_Int | intstr_String

record IntOrString =
  Type :: IntstrType
  IntVal :: int32
  StrVal :: string

text \<open>\<open>IntOrString.IntValue\<close>: a string value is parsed with Atoi, the error dropped.\<close>

definition IntValue :: "IntOrString \<Rightarrow> int" where
  "IntValue v = (if Type v = intstr_String then fst (Atoi (StrVal v)) else sint (IntVal v))"

definition FromString :: "string \<Rightarrow> IntOrString" where
  "FromString s = \<lparr>Type = intstr_String, IntVal = 0, StrVal = s\<rparr>"

record ServicePort =
  sp_Name :: string
  sp_Protocol :: Protocol
  sp_Port :: int32
  sp_TargetPort :: IntOrString

record Service =
  svc_Namespace :: string
  svc_Name :: string
  svc_Labels :: "(string \<times> string) list"
  Spec_Type :: string
  Spec_ExternalName :: string
  Spec_TrafficDistribution :: "string option"
  Spec_Ports :: "ServicePort list"

record ObjectReference =
  ref_Kind :: string
  ref_Namespace :: string
  ref_Name :: string

text \<open>\<open>discoveryv1.EndpointPort\<close>: all three fields are pointers.\<close>

record EndpointPort =
  epp_Name :: "string option"
  epp_Protocol :: "Protocol option"
  epp_Port :: "int32 option"

text \<open>
  \<open>discoveryv1.Endpoint\<close>. \<open>Ready\<close> is \<open>Conditions.Ready\<close>, a \<open>*bool\<close>; \<open>Hints\<close> is
  the pointer \<open>Hints\<close>, holding the names of \<open>Hints.ForZones\<close>.
\<close>

record SliceEndpoint =
  Addresses :: "string list"
  Ready :: "bool option"
  Hints :: "string list option"
  TargetRef :: "ObjectReference option"

record EndpointSlice =
  eps_Ports :: "EndpointPort list"
  eps_Endpoints :: "SliceEndpoint list"

record Endpoint =
  Address :: string
  Port :: string
  Target :: "ObjectReference option"

section \<open>EndpointResolver: getEndpointsFromSlices\<close>

text \<open>
  What endpoints.go uses and src/ does not declare: functions of the Go standard
  library and of the Kubernetes helper packages, and the constant \<open>emptyZone\<close>.
  They are parameters of the model. \<open>ParseIP\<close> gives the bytes of the address or
  None (Go's nil).
\<close>

record netlib =
  ParseIP :: "string \<Rightarrow> nat list option"
  IsLoopback :: "nat list \<Rightarrow> bool"
  IsDNS1123Subdomain :: "string \<Rightarrow> string list"
  MetaNamespaceKey :: "Service \<Rightarrow> string"
  emptyZone :: string

text \<open>The loop over \<open>eps.Ports\<close> (lines 67-87), \<open>ports\<close> being the accumulator.\<close>

fun slicePorts :: "ServicePort \<Rightarrow> Protocol \<Rightarrow> EndpointPort list \<Rightarrow> int32 list \<Rightarrow> go_panic + int32 list" where
  "slicePorts port proto [] ports = Inr ports"
| "slicePorts port proto (epPort # rest) ports =
     (case epp_Protocol epPort of
        None \<Rightarrow> Inl NilPointerDereference
      | Some epProto \<Rightarrow>
          if epProto \<noteq> proto then slicePorts port proto rest ports
          else
            (case (if sp_Name port = '''' then
                     (case epp_Port epPort of None \<Rightarrow> Inl NilPointerDereference | Some p \<Rightarrow> Inr p)
                   else
                     (case epp_Name epPort of
                        None \<Rightarrow> Inl NilPointerDereference
                      | Some nm \<Rightarrow>
                          if sp_Name port = nm then
                            (case epp_Port epPort of None \<Rightarrow> Inl NilPointerDereference | Some p \<Rightarrow> Inr p)
                          else Inr 0)) of
               Inl e \<Rightarrow> Inl e
             | Inr targetPort0 \<Rightarrow>
                 (let targetPort =
                        (if targetPort0 = 0 \<and> Type (sp_TargetPort port) = intstr_Int
                         then IntVal (sp_TargetPort port) else targetPort0)
                  in if targetPort = 0 then slicePorts port proto rest ports
                     else slicePorts port proto rest (ports @ [targetPort]))))"

text \<open>The candidate target ports of one slice (lines 61-88).\<close>

definition candidatePorts :: "ServicePort \<Rightarrow> Protocol \<Rightarrow> EndpointSlice \<Rightarrow> go_panic + int32 list" where
  "candidatePorts port proto eps =
     (if eps_Ports eps = [] \<and> Type (sp_TargetPort port) = intstr_Int
      then Inr [IntVal (sp_TargetPort port)]
      else slicePorts port proto (eps_Ports eps) [])"

text \<open>\<open>foundEndpointsForZone\<close> (lines 95-106) and the "all have zone hints" loop (114-119).\<close>

definition foundEndpointsForZone :: "string \<Rightarrow> SliceEndpoint list \<Rightarrow> bool" where
  "foundEndpointsForZone zoneForHints endpoints =
     list_ex (\<lambda>ep. case Hints ep of None \<Rightarrow> False | Some forZones \<Rightarrow> zoneForHints \<in> set forZones) endpoints"

definition allHaveZoneHints :: "SliceEndpoint list \<Rightarrow> bool" where
  "allHaveZoneHints endpoints =
     list_all (\<lambda>ep. case Hints ep of None \<Rightarrow> False | Some forZones \<Rightarrow> forZones \<noteq> []) endpoints"

text \<open>The value of \<open>useTopologyHints\<close> after lines 89-123, computed for one slice.\<close>

definition useTopologyHints :: "netlib \<Rightarrow> bool \<Rightarrow> string \<Rightarrow> EndpointSlice \<Rightarrow> bool" where
  "useTopologyHints lib useTrafficDistribution zoneForHints eps =
     (if zoneForHints \<noteq> emptyZone lib then
        (if useTrafficDistribution \<and> \<not> foundEndpointsForZone zoneForHints (eps_Endpoints eps)
         then False else True)
        \<and> allHaveZoneHints (eps_Endpoints eps)
      else False)"

text \<open>
  The state of the emitting loops: \<open>upsServers\<close> and the key set
  \<open>processedUpstreamServers\<close>.
\<close>

type_synonym ups_state = "Endpoint list \<times> string set"

text \<open>Lines 144-156: the addresses of one endpoint for one port.\<close>

fun emitAddresses :: "SliceEndpoint \<Rightarrow> int32 \<Rightarrow> string list \<Rightarrow> ups_state \<Rightarrow> ups_state" where
  "emitAddresses ep epPort [] st = st"
| "emitAddresses ep epPort (epAddress # rest) (upsServers, processed) =
     (let hostPort = JoinHostPort epAddress (Itoa (sint epPort))
      in if hostPort \<in> processed then emitAddresses ep epPort rest (upsServers, processed)
         else emitAddresses ep epPort rest
                (upsServers @ [\<lparr>Address = epAddress, Port = Sprintf_v epPort, Target = TargetRef ep\<rparr>],
                 insert hostPort processed))"

text \<open>Lines 143-157: the candidate ports of one endpoint.\<close>

fun emitPorts :: "SliceEndpoint \<Rightarrow> int32 list \<Rightarrow> ups_state \<Rightarrow> ups_state" where
  "emitPorts ep [] st = st"
| "emitPorts ep (epPort # rest) st = emitPorts ep rest (emitAddresses ep epPort (Addresses ep) st)"

text \<open>
  Lines 126-141: whether the loop body goes on to emit the endpoint. With
  \<open>useTopologyHints\<close> set, \<open>ep.Hints\<close> is dereferenced.
\<close>

definition epHasZone :: "string \<Rightarrow> SliceEndpoint \<Rightarrow> go_panic + bool" where
  "epHasZone zoneForHints ep =
     (case Hints ep of None \<Rightarrow> Inl NilPointerDereference
      | Some forZones \<Rightarrow> Inr (zoneForHints \<in> set forZones))"

text \<open>Lines 125-158: the endpoints of one slice.\<close>

fun emitEndpoints :: "bool \<Rightarrow> string \<Rightarrow> int32 list \<Rightarrow> SliceEndpoint list \<Rightarrow> ups_state \<Rightarrow> go_panic + ups_state" where
  "emitEndpoints useHints zoneForHints ports [] st = Inr st"
| "emitEndpoints useHints zoneForHints ports (ep # rest) st =
     (if Ready ep = Some False then emitEndpoints useHints zoneForHints ports rest st
      else if useHints then
        (case epHasZone zoneForHints ep of
           Inl e \<Rightarrow> Inl e
         | Inr hasZone \<Rightarrow>
             if \<not> hasZone then emitEndpoints useHints zoneForHints ports rest st
             else emitEndpoints useHints zoneForHints ports rest (emitPorts ep ports st))
      else emitEndpoints useHints zoneForHints ports rest (emitPorts ep ports st))"

text \<open>Lines 60-159: the loop over the slices of the service.\<close>

fun emitSlices :: "netlib \<Rightarrow> ServicePort \<Rightarrow> Protocol \<Rightarrow> bool \<Rightarrow> string \<Rightarrow> EndpointSlice list \<Rightarrow> ups_state \<Rightarrow> go_panic + ups_state" where
  "emitSlices lib port proto useTrafficDistribution zoneForHints [] st = Inr st"
| "emitSlices lib port proto useTrafficDistribution zoneForHints (eps # rest) st =
     (case candidatePorts port proto eps of
        Inl e \<Rightarrow> Inl e
      | Inr ports \<Rightarrow>
          (case emitEndpoints (useTopologyHints lib useTrafficDistribution zoneForHints eps)
                  zoneForHints ports (eps_Endpoints eps) st of
             Inl e \<Rightarrow> Inl e
           | Inr st' \<Rightarrow> emitSlices lib port proto useTrafficDistribution zoneForHints rest st'))"

text \<open>
  getEndpointsFromSlices. The service and the port are pointers (None is nil);
  \<open>getServiceEndpointsSlices\<close> returns its error as \<open>Inl\<close>.
\<close>

definition getEndpointsFromSlices ::
  "netlib \<Rightarrow> Service option \<Rightarrow> ServicePort option \<Rightarrow> Protocol \<Rightarrow> string \<Rightarrow>
   (string \<Rightarrow> string + EndpointSlice list) \<Rightarrow> go_panic + Endpoint list" where
  "getEndpointsFromSlices lib s port proto zoneForHints getServiceEndpointsSlices =
     (case (s, port) of
        (Some s, Some port) \<Rightarrow>
          (let useTrafficDistribution =
                 (Spec_TrafficDistribution s = Some ServiceTrafficDistributionPreferClose);
               svcKey = MetaNamespaceKey lib s
           in if Spec_Type s = ServiceTypeExternalName then
                (if Spec_ExternalName s = ''localhost'' \<or>
                    (case ParseIP lib (Spec_ExternalName s) of
                       None \<Rightarrow> False | Some ip \<Rightarrow> IsLoopback lib ip)
                 then Inr []
                 else
                   (let targetPort = IntValue (sp_TargetPort port)
                    in if ParseIP lib (Spec_ExternalName s) = None \<and>
                          IsDNS1123Subdomain lib (TrimSuffix (Spec_ExternalName s) ''.'') \<noteq> []
                       then Inr []
                       else Inr [\<lparr>Address = Spec_ExternalName s, Port = Itoa targetPort,
                                  Target = None\<rparr>]))
              else
                (case getServiceEndpointsSlices svcKey of
                   Inl err \<Rightarrow> Inr []
                 | Inr epss \<Rightarrow>
                     (case emitSlices lib port proto useTrafficDistribution zoneForHints epss ([], {}) of
                        Inl e \<Rightarrow> Inl e
                      | Inr (upsServers, processed) \<Rightarrow> Inr upsServers)))
      | _ \<Rightarrow> Inr [])"

subsection \<open>Notions used to state the properties of the resolver\<close>

text \<open>The key of an emitted Endpoint in \<open>processedUpstreamServers\<close>.\<close>

definition hostPortOf :: "Endpoint \<Rightarrow> string" where
  "hostPortOf e = JoinHostPort (Address e) (Port e)"

definition pairsOf :: "Endpoint list \<Rightarrow> (string \<times> string) set" where
  "pairsOf ups = (\<lambda>e. (Address e, Port e)) ` set ups"

text \<open>
  The invariant of the emitting loops: the key set holds exactly the keys of the
  emitted Endpoints, no key was emitted twice, and no port string has a colon.
\<close>

definition ups_inv :: "ups_state \<Rightarrow> bool" where
  "ups_inv st = (snd st = hostPortOf ` set (fst st) \<and> distinct (map hostPortOf (fst st)) \<and>
                 (\<forall>e\<in>set (fst st). CHR '':'' \<notin> set (Port e)))"

definition bracketed :: "string \<Rightarrow> string" where
  "bracketed host = (if CHR '':'' \<in> set host then ''['' @ host @ '']'' else host)"

text \<open>Whether the loop body of lines 125-158 goes on to emit the endpoint.\<close>

definition endpointKept :: "bool \<Rightarrow> string \<Rightarrow> SliceEndpoint \<Rightarrow> bool" where
  "endpointKept useHints zoneForHints ep =
     (Ready ep \<noteq> Some False \<and>
      (useHints \<longrightarrow> (\<exists>forZones. Hints ep = Some forZones \<and> zoneForHints \<in> set forZones)))"

subsection \<open>Example inputs of the resolver\<close>

text \<open>
  A stand-in for the library functions, defined on the few strings the examples use.
\<close>

definition stub_netlib :: netlib where
  "stub_netlib =
     \<lparr>ParseIP = (\<lambda>s. if s = ''127.0.0.1'' then Some [127, 0, 0, 1]
                       else if s = ''10.0.0.1'' then Some [10, 0, 0, 1] else None),
      IsLoopback = (\<lambda>ip. case ip of [] \<Rightarrow> False | b # _ \<Rightarrow> b = 127),
      IsDNS1123Subdomain = (\<lambda>s. if s = [] \<or> CHR ''_'' \<in> set s then [''invalid''] else []),
      MetaNamespaceKey = (\<lambda>s. svc_Namespace s @ ''/'' @ svc_Name s),
      emptyZone = ''''\<rparr>"

definition ex_port :: ServicePort where
  "ex_port = \<lparr>sp_Name = ''http'', sp_Protocol = ''TCP'', sp_Port = 80,
              sp_TargetPort = \<lparr>Type = intstr_Int, IntVal = 8080, StrVal = ''''\<rparr>\<rparr>"

definition ex_svc :: Service where
  "ex_svc = \<lparr>svc_Namespace = ''ns'', svc_Name = ''svc'', svc_Labels = [],
             Spec_Type = ''ClusterIP'', Spec_ExternalName = '''',
             Spec_TrafficDistribution = None, Spec_Ports = [ex_port]\<rparr>"

definition ex_external :: "string \<Rightarrow> Service" where
  "ex_external name = ex_svc\<lparr>Spec_Type := ''ExternalName'', Spec_ExternalName := name\<rparr>"

definition ex_epport :: EndpointPort where
  "ex_epport = \<lparr>epp_Name = Some ''http'', epp_Protocol = Some ''TCP'', epp_Port = Some 8080\<rparr>"

definition ex_endpoint :: "string \<Rightarrow> bool option \<Rightarrow> string list option \<Rightarrow> SliceEndpoint" where
  "ex_endpoint addr ready hints =
     \<lparr>Addresses = [addr], Ready = ready, Hints = hints, TargetRef = None\<rparr>"

definition ex_slice :: "SliceEndpoint list \<Rightarrow> EndpointSlice" where
  "ex_slice endpoints = \<lparr>eps_Ports = [ex_epport], eps_Endpoints = endpoints\<rparr>"

definition ex_ups :: "string \<Rightarrow> Endpoint" where
  "ex_ups addr = \<lparr>Address = addr, Port = ''8080'', Target = None\<rparr>"

text \<open>Two slices that both hold 10.0.0.1, the second also 10.0.0.2.\<close>

definition ex_dup_slices :: "string \<Rightarrow> string + EndpointSlice list" where
  "ex_dup_slices key =
     Inr [ex_slice [ex_endpoint ''10.0.0.1'' (Some True) None],
          ex_slice [ex_endpoint ''10.0.0.1'' (Some True) None,
                    ex_endpoint ''10.0.0.2'' (Some True) None]]"

text \<open>
  Two slices: in the first every endpoint has a zone hint, in the second the only
  endpoint has none.
\<close>

definition ex_zone_slices :: "string \<Rightarrow> string + EndpointSlice list" where
  "ex_zone_slices key =
     Inr [ex_slice [ex_endpoint ''10.0.0.1'' None (Some [''zone-a'']),
                    ex_endpoint ''10.0.0.3'' None (Some [''zone-b''])],
          ex_slice [ex_endpoint ''10.0.0.2'' None None]]"

text \<open>One slice with an endpoint of each readiness: unset, false, true.\<close>

definition ex_ready_slices :: "EndpointSlice list" where
  "ex_ready_slices =
     [ex_slice [ex_endpoint ''10.0.0.5'' None None,
                ex_endpoint ''10.0.0.6'' (Some False) None,
                ex_endpoint ''10.0.0.7'' (Some True) None]]"

section \<open>The data model of types.go\<close>

subsection \<open>Ingress rules\<close>

text \<open>
  \<open>networking.IngressServiceBackend\<close>, \<open>HTTPIngressPath\<close> and \<open>IngressRule\<close>.
  \<open>hip_Service\<close> is the pointer \<open>path.Backend.Service\<close>; \<open>rule_HTTP\<close> is the pointer
  \<open>rule.HTTP\<close>, holding its \<open>Paths\<close>.
\<close>

record IngressServiceBackend =
  isb_Name :: string
  isb_Port_Name :: string
  isb_Port_Number :: int32

record HTTPIngressPath =
  hip_Path :: string
  hip_PathType :: "PathType option"
  hip_Service :: "IngressServiceBackend option"

record IngressRule =
  rule_Host :: string
  rule_HTTP :: "HTTPIngressPath list option"

subsection \<open>Parsed annotations\<close>

text \<open>
  The annotation structs are declared in packages outside src/; each record has the
  fields that the functions under src/ read.
\<close>

record authtls_Config =
  atls_Secret :: string
  atls_CAFileName :: string
  atls_AuthTLSError :: string

record proxyssl_Config =
  pssl_Secret :: string
  pssl_CAFileName :: string

record sessionaffinity_Cookie =
  ck_Name :: string
  ck_Expires :: string
  ck_MaxAge :: string
  ck_Secure :: bool
  ck_Path :: string
  ck_Domain :: string
  ck_SameSite :: string
  ck_ConditionalSameSiteNone :: bool
  ck_ChangeOnFailure :: bool

record sessionaffinity_Config =
  sa_Type :: string
  sa_Mode :: string
  sa_Cookie :: sessionaffinity_Cookie

record rewrite_Config =
  Target :: string
  UseRegex :: bool

record redirect_Config =
  FromToWWW :: bool

record AnnotationsIngress =
  ann_CertificateAuth :: authtls_Config
  ann_ProxySSL :: proxyssl_Config
  ann_SessionAffinity :: sessionaffinity_Config
  ann_Rewrite :: rewrite_Config
  ann_Redirect :: redirect_Config
  ann_Canary_Enabled :: bool
  ann_DefaultBackend :: "Service option"
  ann_CustomHTTPErrors :: "int list"
  ann_ConfigurationSnippet :: string
  ann_ServerSnippet :: string
  ann_StreamSnippet :: string

text \<open>
  \<open>Ingress\<close>: the embedded \<open>networking.Ingress\<close> (namespace, name, rules) and the
  parsed annotations, which the store always sets.
\<close>

record Ingress =
  ing_Namespace :: string
  ing_Name :: string
  ing_Rules :: "IngressRule list"
  ParsedAnnotations :: AnnotationsIngress

subsection \<open>Backends\<close>

text \<open>\<open>csa_Locations\<close> is a Go map; None is the nil map.\<close>

record CookieSessionAffinity =
  csa_Name :: string
  csa_Expires :: string
  csa_MaxAge :: string
  csa_Locations :: "(string \<times> string list) list option"
  csa_Secure :: bool
  csa_Path :: string
  csa_Domain :: string
  csa_SameSite :: string
  csa_ConditionalSameSiteNone :: bool
  csa_ChangeOnFailure :: bool

record SessionAffinityConfig =
  AffinityType :: string
  AffinityMode :: string
  CookieSessionAffinity :: CookieSessionAffinity

record TrafficShapingPolicy =
  Weight :: int
  WeightTotal :: int
  Header :: string
  HeaderValue :: string
  HeaderPattern :: string
  Cookie :: string

record UpstreamHashByConfig =
  UpstreamHashBy :: string
  UpstreamHashBySubset :: bool
  UpstreamHashBySubsetSize :: int

record Backend =
  be_Name :: string
  be_Service :: "Service option"
  be_Port :: IntOrString
  be_SSLPassthrough :: bool
  be_Endpoints :: "Endpoint list"
  be_SessionAffinity :: SessionAffinityConfig
  be_UpstreamHashBy :: UpstreamHashByConfig
  be_LoadBalancing :: string
  be_NoServer :: bool
  be_TrafficShapingPolicy :: TrafficShapingPolicy
  be_AlternativeBackends :: "string list"

subsection \<open>Servers and locations\<close>

text \<open>
  \<open>Location\<close>. Of the annotation-derived settings the record keeps those that a
  function under src/ reads or writes; the others have types declared outside src/.
\<close>

record Location =
  loc_Path :: string
  loc_PathType :: "PathType option"
  loc_IsDefBackend :: bool
  loc_Ingress :: "Ingress option"
  loc_IngressPath :: string
  loc_Backend :: string
  loc_Service :: "Service option"
  loc_Port :: IntOrString
  loc_Redirect :: redirect_Config
  loc_Rewrite :: rewrite_Config
  loc_DefaultBackend :: "Service option"
  loc_DefaultBackendUpstreamName :: string
  loc_CustomHTTPErrors :: "int list"
  loc_ConfigurationSnippet :: string

record SSLCert =
  cert_Name :: string
  cert_Namespace :: string
  cert_PemFileName :: string
  cert_PemSHA :: string
  cert_UID :: string

record Server =
  srv_Hostname :: string
  srv_SSLPassthrough :: bool
  srv_SSLCert :: "SSLCert option"
  srv_Locations :: "Location list"
  srv_Aliases :: "string list"
  srv_RedirectFromToWWW :: bool
  srv_CertificateAuth :: authtls_Config
  srv_ProxySSL :: proxyssl_Config
  srv_ServerSnippet :: string
  srv_SSLCiphers :: string
  srv_SSLPreferServerCiphers :: string
  srv_AuthTLSError :: string

subsection \<open>Stream services and the Configuration\<close>

record ProxyProtocol =
  Decode :: bool
  Encode :: bool

record L4Backend =
  l4b_Port :: IntOrString
  l4b_Name :: string
  l4b_Namespace :: string
  l4b_Protocol :: Protocol
  l4b_ProxyProtocol :: ProxyProtocol

record L4Service =
  l4_Port :: int
  l4_Backend :: L4Backend
  l4_Endpoints :: "Endpoint list"
  l4_Service :: "Service option"

record SSLPassthroughBackend =
  ptb_Service :: "Service option"
  ptb_Port :: IntOrString
  ptb_Backend :: string
  ptb_Hostname :: string

record Configuration =
  Backends :: "Backend list"
  Servers :: "Server list"
  TCPEndpoints :: "L4Service list"
  UDPEndpoints :: "L4Service list"
  PassthroughBackends :: "SSLPassthroughBackend list"
  BackendConfigChecksum :: string
  ConfigurationChecksum :: string
  DefaultSSLCertificate :: "SSLCert option"
  StreamSnippets :: "string list"

subsection \<open>Zero values\<close>

definition zero_IntOrString :: IntOrString where
  "zero_IntOrString = \<lparr>Type = intstr_Int, IntVal = 0, StrVal = ''''\<rparr>"

definition zero_CookieSessionAffinity :: CookieSessionAffinity where
  "zero_CookieSessionAffinity =
     \<lparr>csa_Name = '''', csa_Expires = '''', csa_MaxAge = '''', csa_Locations = None,
      csa_Secure = False, csa_Path = '''', csa_Domain = '''', csa_SameSite = '''',
      csa_ConditionalSameSiteNone = False, csa_ChangeOnFailure = False\<rparr>"

definition zero_Backend :: Backend where
  "zero_Backend =
     \<lparr>be_Name = '''', be_Service = None, be_Port = zero_IntOrString, be_SSLPassthrough = False,
      be_Endpoints = [],
      be_SessionAffinity = \<lparr>AffinityType = '''', AffinityMode = '''',
                             CookieSessionAffinity = zero_CookieSessionAffinity\<rparr>,
      be_UpstreamHashBy = \<lparr>UpstreamHashBy = '''', UpstreamHashBySubset = False,
                            UpstreamHashBySubsetSize = 0\<rparr>,
      be_LoadBalancing = '''', be_NoServer = False,
      be_TrafficShapingPolicy = \<lparr>Weight = 0, WeightTotal = 0, Header = '''', HeaderValue = '''',
                                  HeaderPattern = '''', Cookie = ''''\<rparr>,
      be_AlternativeBackends = []\<rparr>"

definition zero_Location :: Location where
  "zero_Location =
     \<lparr>loc_Path = '''', loc_PathType = None, loc_IsDefBackend = False, loc_Ingress = None,
      loc_IngressPath = '''', loc_Backend = '''', loc_Service = None, loc_Port = zero_IntOrString,
      loc_Redirect = \<lparr>FromToWWW = False\<rparr>, loc_Rewrite = \<lparr>Target = '''', UseRegex = False\<rparr>,
      loc_DefaultBackend = None, loc_DefaultBackendUpstreamName = '''',
      loc_CustomHTTPErrors = [], loc_ConfigurationSnippet = ''''\<rparr>"

subsection \<open>The controller and its collaborators\<close>

text \<open>
  \<open>ngx_config.ListenPorts\<close> and the fields of \<open>NginxConfiguration\<close> that the
  synthesis reads.
\<close>

record ListenPorts =
  lp_HTTP :: int
  lp_HTTPS :: int
  lp_SSLProxy :: int
  lp_Health :: int
  lp_Default :: int

record NginxConfiguration =
  cfg_DefaultService :: string
  cfg_TCPConfigMapName :: string
  cfg_UDPConfigMapName :: string
  cfg_DefaultSSLCertificate :: string
  cfg_ListenPorts :: ListenPorts
  cfg_FakeCertificate :: "SSLCert option"
  cfg_EnableTopologyAwareRouting :: bool

text \<open>The result of \<open>store.GetBackendConfiguration()\<close>.\<close>

record BackendConfiguration =
  AllowSnippetAnnotations :: bool
  ProxySSLLocationOnly :: bool
  Checksum :: string

text \<open>
  The Store, read-only: every lookup returns its error as \<open>Inl\<close>. The entries of a
  ConfigMap's \<open>Data\<close>, a Go map, stand in the order in which the range loop of the
  pass visits them.
\<close>

record Storer =
  GetService :: "string \<Rightarrow> string + Service"
  GetConfigMap :: "string \<Rightarrow> string + (string \<times> string) list"
  GetServiceEndpointsSlices :: "string \<Rightarrow> string + EndpointSlice list"
  GetLocalSSLCert :: "string \<Rightarrow> string + SSLCert option"
  GetBackendConfiguration :: BackendConfiguration

text \<open>
  The registries \<open>map[string]*Backend\<close> and \<open>map[string]*Server\<close>: association lists
  with one entry per key, each key owning its object. A range loop over a Go map
  visits the entries in an unspecified order; the model visits them in the order of
  the list.
\<close>

type_synonym upstreams = "(string \<times> Backend) list"
type_synonym servers = "(string \<times> Server) list"

text \<open>
  What the controller code under src/ calls and src/ does not declare: the
  constants \<open>defUpstreamName\<close> and \<open>defServerName\<close>, the ports of package nginx, and
  the functions of the repository and of the libraries. They are parameters of the
  model. A function that works through pointers returns what it may have changed.
\<close>

record externals =
  ext_lib :: netlib
  defUpstreamName :: string
  defServerName :: string
  ProfilerPort :: int
  StatusPort :: int
  StreamPort :: int
  DefaultEndpoint :: Endpoint
  getIngressPodZone :: "Service \<Rightarrow> string"
  ParseNameNS :: "string \<Rightarrow> string + (string \<times> string)"
  EqualFold :: "string \<Rightarrow> string \<Rightarrow> bool"
  IngressKey :: "Ingress \<Rightarrow> string"
  createUpstreams :: "Ingress list \<Rightarrow> Backend \<Rightarrow> upstreams"
  createServers :: "Ingress list \<Rightarrow> upstreams \<Rightarrow> Backend \<Rightarrow> upstreams \<times> servers"
  dropSnippetDirectives :: "AnnotationsIngress \<Rightarrow> string \<Rightarrow> AnnotationsIngress"
  upstreamName :: "string \<Rightarrow> IngressServiceBackend \<Rightarrow> string"
  locationApplyAnnotations :: "Location \<Rightarrow> AnnotationsIngress \<Rightarrow> Location"
  nonCanaryIngressExists :: "Ingress list \<Rightarrow> Ingress list \<Rightarrow> bool"
  mergeAlternativeBackends :: "Ingress \<Rightarrow> upstreams \<Rightarrow> servers \<Rightarrow> upstreams \<times> servers"
  shouldCreateUpstreamForLocationDefaultBackend :: "Backend \<Rightarrow> Location \<Rightarrow> bool"

record NGINXController =
  cfg :: NginxConfiguration
  store :: Storer
  ext :: externals

section \<open>ConfigurationAssembler and StreamServiceResolver (main.go)\<close>

definition rootLocation :: string where "rootLocation = ''/''"
definition pathTypeExact :: PathType where "pathTypeExact = ''Exact''"
definition pathTypePrefix :: PathType where "pathTypePrefix = ''Prefix''"

text \<open>
  \<open>sort.SliceStable\<close> with its \<open>less\<close> function (\<open>lessf\<close>): the stable sort, as an
  insertion sort. An element of the front goes behind the elements that are less,
  before the first that is not.
\<close>

fun insertStable :: "('a \<Rightarrow> 'a \<Rightarrow> bool) \<Rightarrow> 'a \<Rightarrow> 'a list \<Rightarrow> 'a list" where
  "insertStable lessf x [] = [x]"
| "insertStable lessf x (y # ys) =
     (if lessf y x then y # insertStable lessf x ys else x # y # ys)"

fun SliceStable :: "'a list \<Rightarrow> ('a \<Rightarrow> 'a \<Rightarrow> bool) \<Rightarrow> 'a list" where
  "SliceStable [] lessf = []"
| "SliceStable (x # xs) lessf = insertStable lessf x (SliceStable xs lessf)"

subsection \<open>updateServerLocations\<close>

definition normalizePrefixPath :: "string \<Rightarrow> string" where
  "normalizePrefixPath path =
     (if path = rootLocation then rootLocation
      else if \<not> HasSuffix path ''/'' then path @ ''/''
      else path)"

definition needsRewrite :: "Location \<Rightarrow> bool" where
  "needsRewrite location =
     (if Target (loc_Rewrite location) \<noteq> '''' \<and> Target (loc_Rewrite location) \<noteq> loc_Path location
      then True else False)"

text \<open>Lines 261-266: the map \<open>exactLocations\<close>; \<open>*location.PathType\<close> is dereferenced.\<close>

fun exactLocationsOf :: "Location list \<Rightarrow> (string \<rightharpoonup> Location) \<Rightarrow> go_panic + (string \<rightharpoonup> Location)" where
  "exactLocationsOf [] exactLocations = Inr exactLocations"
| "exactLocationsOf (location # rest) exactLocations =
     (case loc_PathType location of
        None \<Rightarrow> Inl NilPointerDereference
      | Some pathType \<Rightarrow>
          if pathType = pathTypeExact
          then exactLocationsOf rest (exactLocations(loc_Path location \<mapsto> location))
          else exactLocationsOf rest exactLocations)"

text \<open>Lines 268-308: the second loop, \<open>newLocations\<close> being the accumulator.\<close>

fun updateLocations :: "(string \<rightharpoonup> Location) \<Rightarrow> Location list \<Rightarrow> Location list \<Rightarrow> go_panic + Location list" where
  "updateLocations exactLocations [] newLocations = Inr newLocations"
| "updateLocations exactLocations (location # rest) newLocations =
     (if loc_Path location = rootLocation
      then updateLocations exactLocations rest (newLocations @ [location])
      else
        (let location = location\<lparr>loc_IngressPath := loc_Path location\<rparr>
         in case loc_PathType location of
              None \<Rightarrow> Inl NilPointerDereference
            | Some pathType \<Rightarrow>
                if pathType \<noteq> pathTypePrefix
                then updateLocations exactLocations rest (newLocations @ [location])
                else if needsRewrite location \<or> UseRegex (loc_Rewrite location)
                then updateLocations exactLocations rest (newLocations @ [location])
                else if exactLocations (loc_Path location) \<noteq> None
                then updateLocations exactLocations rest
                       (newLocations @ [location\<lparr>loc_Path := normalizePrefixPath (loc_Path location)\<rparr>])
                else
                  (let el = location;
                       location = location\<lparr>loc_Path := normalizePrefixPath (loc_Path location)\<rparr>;
                       exactLocation = el\<lparr>loc_PathType := Some pathTypeExact\<rparr>
                   in updateLocations exactLocations rest
                        (newLocations @ [location, exactLocation]))))"

definition updateServerLocations :: "Location list \<Rightarrow> go_panic + Location list" where
  "updateServerLocations locations =
     (case exactLocationsOf locations Map.empty of
        Inl e \<Rightarrow> Inl e
      | Inr exactLocations \<Rightarrow> updateLocations exactLocations locations [])"

subsection \<open>getStreamSnippets and getDefaultSSLCertificate\<close>

fun getStreamSnippets :: "Ingress list \<Rightarrow> string list" where
  "getStreamSnippets [] = []"
| "getStreamSnippets (i # rest) =
     (if ann_StreamSnippet (ParsedAnnotations i) = '''' then getStreamSnippets rest
      else ann_StreamSnippet (ParsedAnnotations i) # getStreamSnippets rest)"

definition getDefaultSSLCertificate :: "NGINXController \<Rightarrow> SSLCert option" where
  "getDefaultSSLCertificate n =
     (if cfg_DefaultSSLCertificate (cfg n) \<noteq> '''' then
        (case GetLocalSSLCert (store n) (cfg_DefaultSSLCertificate (cfg n)) of
           Inr certificate \<Rightarrow> certificate
         | Inl err \<Rightarrow> cfg_FakeCertificate (cfg n))
      else cfg_FakeCertificate (cfg n))"

subsection \<open>getStreamServices\<close>

text \<open>Lines 358-369: the reserved ports.\<close>

definition reservedPorts :: "NGINXController \<Rightarrow> int list" where
  "reservedPorts n =
     [lp_HTTP (cfg_ListenPorts (cfg n)),
      lp_HTTPS (cfg_ListenPorts (cfg n)),
      lp_SSLProxy (cfg_ListenPorts (cfg n)),
      lp_Health (cfg_ListenPorts (cfg n)),
      lp_Default (cfg_ListenPorts (cfg n)),
      ProfilerPort (ext n),
      StatusPort (ext n),
      StreamPort (ext n)]"

text \<open>The zone handed to the resolver (lines 412-417, and the same in controller.go).\<close>

definition zoneOf :: "NGINXController \<Rightarrow> Service \<Rightarrow> string" where
  "zoneOf n svc =
     (if cfg_EnableTopologyAwareRouting (cfg n) then getIngressPodZone (ext n) svc
      else emptyZone (ext_lib (ext n)))"

text \<open>
  Lines 419-443: the endpoints of the entry. The first port of the service with the
  name (or the number) and the protocol is resolved; \<open>endps\<close> stays nil when there is
  none. \<open>int32(targetPort)\<close> truncates.
\<close>

definition streamEndpoints :: "NGINXController \<Rightarrow> Protocol \<Rightarrow> Service \<Rightarrow> string \<Rightarrow> go_panic + Endpoint list" where
  "streamEndpoints n proto svc svcPort =
     (let (targetPort, err) = Atoi svcPort;
          zone = zoneOf n svc;
          found = (if err
                   then find (\<lambda>sp. sp_Name sp = svcPort \<and> sp_Protocol sp = proto) (Spec_Ports svc)
                   else find (\<lambda>sp. sp_Port sp = (word_of_int targetPort :: int32) \<and> sp_Protocol sp = proto)
                          (Spec_Ports svc))
      in case found of
           None \<Rightarrow> Inr []
         | Some sp \<Rightarrow>
             getEndpointsFromSlices (ext_lib (ext n)) (Some svc) (Some sp) proto zone
               (GetServiceEndpointsSlices (store n)))"

text \<open>
  Lines 371-462: the body of the loop over the entries of the ConfigMap. None is a
  \<open>continue\<close>, Some the L4Service appended to \<open>svcs\<close>.
\<close>

definition streamEntry :: "NGINXController \<Rightarrow> Protocol \<Rightarrow> string \<times> string \<Rightarrow> go_panic + L4Service option" where
  "streamEntry n proto entry =
     (let (port, svcRef) = entry;
          (externalPort, err) = Atoi port
      in if err then Inr None
         else if externalPort \<in> set (reservedPorts n) then Inr None
         else
           (let nsSvcPort = Split svcRef CHR '':''
            in if length nsSvcPort < 2 then Inr None
               else
                 (let nsName = nsSvcPort ! 0;
                      svcPort = nsSvcPort ! 1;
                      decode = (length nsSvcPort \<ge> 3 \<and> proto = ProtocolTCP \<and>
                                EqualFold (ext n) (nsSvcPort ! 2) ''PROXY'');
                      encode = (length nsSvcPort \<ge> 3 \<and> proto = ProtocolTCP \<and>
                                length nsSvcPort = 4 \<and> EqualFold (ext n) (nsSvcPort ! 3) ''PROXY'')
                  in case ParseNameNS (ext n) nsName of
                       Inl err \<Rightarrow> Inr None
                     | Inr (svcNs, svcName) \<Rightarrow>
                         (case GetService (store n) nsName of
                            Inl err \<Rightarrow> Inr None
                          | Inr svc \<Rightarrow>
                              (case streamEndpoints n proto svc svcPort of
                                 Inl e \<Rightarrow> Inl e
                               | Inr endps \<Rightarrow>
                                   if endps = [] then Inr None
                                   else Inr (Some
                                     \<lparr>l4_Port = externalPort,
                                      l4_Backend =
                                        \<lparr>l4b_Port = FromString svcPort, l4b_Name = svcName,
                                         l4b_Namespace = svcNs, l4b_Protocol = proto,
                                         l4b_ProxyProtocol = \<lparr>Decode = decode, Encode = encode\<rparr>\<rparr>,
                                      l4_Endpoints = endps,
                                      l4_Service = Some svc\<rparr>))))))"

text \<open>The loop over \<open>configmap.Data\<close>, \<open>svcs\<close> being the accumulator.\<close>

fun streamLoop :: "NGINXController \<Rightarrow> Protocol \<Rightarrow> (string \<times> string) list \<Rightarrow> L4Service list \<Rightarrow> go_panic + L4Service list" where
  "streamLoop n proto [] svcs = Inr svcs"
| "streamLoop n proto (entry # rest) svcs =
     (case streamEntry n proto entry of
        Inl e \<Rightarrow> Inl e
      | Inr None \<Rightarrow> streamLoop n proto rest svcs
      | Inr (Some svc) \<Rightarrow> streamLoop n proto rest (svcs @ [svc]))"

definition getStreamServices :: "NGINXController \<Rightarrow> string \<Rightarrow> Protocol \<Rightarrow> go_panic + L4Service list" where
  "getStreamServices n configmapName proto =
     (if configmapName = '''' then Inr []
      else
        (case ParseNameNS (ext n) configmapName of
           Inl err \<Rightarrow> Inr []
         | Inr nsName \<Rightarrow>
             (case GetConfigMap (store n) configmapName of
                Inl err \<Rightarrow> Inr []
              | Inr configmapData \<Rightarrow>
                  (case streamLoop n proto configmapData [] of
                     Inl e \<Rightarrow> Inl e
                   | Inr svcs \<Rightarrow> Inr (SliceStable svcs (\<lambda>a b. l4_Port a < l4_Port b))))))"

subsection \<open>Notions used to state the properties of updateServerLocations\<close>

text \<open>
  What one iteration of the second loop appends to \<open>newLocations\<close> when the pointer
  \<open>location.PathType\<close> is not nil.
\<close>

definition updatedLocation :: "(string \<rightharpoonup> Location) \<Rightarrow> Location \<Rightarrow> Location list" where
  "updatedLocation exactLocations location =
     (if loc_Path location = rootLocation then [location]
      else if loc_PathType location \<noteq> Some pathTypePrefix
      then [location\<lparr>loc_IngressPath := loc_Path location\<rparr>]
      else if needsRewrite location \<or> UseRegex (loc_Rewrite location)
      then [location\<lparr>loc_IngressPath := loc_Path location\<rparr>]
      else if exactLocations (loc_Path location) \<noteq> None
      then [location\<lparr>loc_IngressPath := loc_Path location,
                      loc_Path := normalizePrefixPath (loc_Path location)\<rparr>]
      else [location\<lparr>loc_IngressPath := loc_Path location,
                      loc_Path := normalizePrefixPath (loc_Path location)\<rparr>,
            location\<lparr>loc_IngressPath := loc_Path location,
                      loc_PathType := Some pathTypeExact\<rparr>])"

text \<open>The words of the spec: an Exact location at the path, and the path with its slash.\<close>

definition hasExactAt :: "Location list \<Rightarrow> string \<Rightarrow> bool" where
  "hasExactAt locations path =
     (\<exists>l\<in>set locations. loc_PathType l = Some pathTypeExact \<and> loc_Path l = path)"

definition withTrailingSlash :: "string \<Rightarrow> string" where
  "withTrailingSlash path = (if path \<noteq> [] \<and> last path = CHR ''/'' then path else path @ ''/'')"

subsection \<open>Example locations\<close>

definition ex_location :: "string \<Rightarrow> PathType \<Rightarrow> Location" where
  "ex_location path pathType =
     zero_Location\<lparr>loc_Path := path, loc_PathType := Some pathType, loc_Backend := ''ns-svc-80''\<rparr>"

definition ex_locations :: "Location list" where
  "ex_locations =
     [ex_location ''/'' ''Prefix'', ex_location ''/api'' ''Prefix'',
      ex_location ''/login'' ''Exact'', ex_location ''/login'' ''Prefix'']"

subsection \<open>Notions used to state the properties of getStreamServices\<close>

text \<open>The L4Service that the loop body appends for an entry, if any.\<close>

definition survivor :: "NGINXController \<Rightarrow> Protocol \<Rightarrow> string \<times> string \<Rightarrow> L4Service option" where
  "survivor n proto entry =
     (case streamEntry n proto entry of Inr (Some svc) \<Rightarrow> Some svc | _ \<Rightarrow> None)"

section \<open>DefaultUpstreamProvider and BackendAssembler (controller.go)\<close>

subsection \<open>getDefaultUpstream\<close>

text \<open>
  \<open>&svc.Spec.Ports[0]\<close> indexes the ports of the default service; the index is
  evaluated before the resolver is called.
\<close>

definition getDefaultUpstream :: "NGINXController \<Rightarrow> go_panic + Backend" where
  "getDefaultUpstream n =
     (let upstream = zero_Backend\<lparr>be_Name := defUpstreamName (ext n)\<rparr>;
          svcKey = cfg_DefaultService (cfg n)
      in if svcKey = ''''
         then Inr (upstream\<lparr>be_Endpoints := be_Endpoints upstream @ [DefaultEndpoint (ext n)]\<rparr>)
         else
           (case GetService (store n) svcKey of
              Inl err \<Rightarrow>
                Inr (upstream\<lparr>be_Endpoints := be_Endpoints upstream @ [DefaultEndpoint (ext n)]\<rparr>)
            | Inr svc \<Rightarrow>
                (let zone = zoneOf n svc
                 in case Spec_Ports svc of
                      [] \<Rightarrow> Inl IndexOutOfRange
                    | sp # _ \<Rightarrow>
                        (case getEndpointsFromSlices (ext_lib (ext n)) (Some svc) (Some sp)
                                ProtocolTCP zone (GetServiceEndpointsSlices (store n)) of
                           Inl e \<Rightarrow> Inl e
                         | Inr endps0 \<Rightarrow>
                             (let endps = (if endps0 = [] then [DefaultEndpoint (ext n)] else endps0)
                              in Inr (upstream\<lparr>be_Service := Some svc,
                                               be_Endpoints := be_Endpoints upstream @ endps\<rparr>))))))"

subsection \<open>getBackendServers: the loop over the ingresses\<close>

text \<open>
  Lines 238-274: the loop over \<open>server.Locations\<close> for one path of an ingress. It
  stops at the first Location with the path. The result is \<open>addLoc\<close>, whether the
  loop set \<open>server.RedirectFromToWWW\<close>, and the locations.
\<close>

fun replaceLocation ::
  "externals \<Rightarrow> Backend \<Rightarrow> Ingress \<Rightarrow> AnnotationsIngress \<Rightarrow> string \<Rightarrow> PathType option \<Rightarrow>
   Location list \<Rightarrow> bool \<times> bool \<times> Location list" where
  "replaceLocation x ups ing anns nginxPath pathType [] = (True, False, [])"
| "replaceLocation x ups ing anns nginxPath pathType (loc # rest) =
     (if loc_Path loc \<noteq> nginxPath then
        (case replaceLocation x ups ing anns nginxPath pathType rest of
           (addLoc, www, rest') \<Rightarrow> (addLoc, www, loc # rest'))
      else if loc_PathType loc \<noteq> pathType then (True, False, loc # rest)
      else if \<not> loc_IsDefBackend loc then (False, False, loc # rest)
      else
        (let loc' = locationApplyAnnotations x
                      (loc\<lparr>loc_Backend := be_Name ups, loc_IsDefBackend := False,
                           loc_Port := be_Port ups, loc_Service := be_Service ups,
                           loc_Ingress := Some ing\<rparr>) anns
         in (False, FromToWWW (loc_Redirect loc'), loc' # rest)))"

text \<open>Lines 233-295: the locations of the server after one path.\<close>

definition mergeLocation ::
  "externals \<Rightarrow> Backend \<Rightarrow> Ingress \<Rightarrow> AnnotationsIngress \<Rightarrow> HTTPIngressPath \<Rightarrow> Server \<Rightarrow> Server" where
  "mergeLocation x ups ing anns path server =
     (let nginxPath = (if hip_Path path \<noteq> '''' then hip_Path path else rootLocation)
      in case replaceLocation x ups ing anns nginxPath (hip_PathType path) (srv_Locations server) of
           (addLoc, www, locations) \<Rightarrow>
             (let server = server\<lparr>srv_Locations := locations,
                                  srv_RedirectFromToWWW := (www \<or> srv_RedirectFromToWWW server)\<rparr>
              in if addLoc then
                   (let loc = locationApplyAnnotations x
                                (zero_Location\<lparr>loc_Path := nginxPath, loc_PathType := hip_PathType path,
                                     loc_Backend := be_Name ups, loc_IsDefBackend := False,
                                     loc_Service := be_Service ups, loc_Port := be_Port ups,
                                     loc_Ingress := Some ing\<rparr>) anns
                    in server\<lparr>srv_RedirectFromToWWW :=
                                 (FromToWWW (loc_Redirect loc) \<or> srv_RedirectFromToWWW server),
                               srv_Locations := srv_Locations server @ [loc]\<rparr>)
                 else server))"

text \<open>Lines 322-325 and 329-332: one more path under a key of the cookie locations.\<close>

definition appendCookiePath :: "string \<Rightarrow> string \<Rightarrow> (string \<times> string list) list \<Rightarrow> (string \<times> string list) list" where
  "appendCookiePath key path locs =
     AList.update key ((case map_of locs key of None \<Rightarrow> [] | Some paths \<Rightarrow> paths) @ [path]) locs"

text \<open>Lines 297-335: the session affinity of the upstream after one path.\<close>

definition mergeAffinity ::
  "AnnotationsIngress \<Rightarrow> string \<Rightarrow> HTTPIngressPath \<Rightarrow> Server \<Rightarrow> Backend \<Rightarrow> go_panic + Backend" where
  "mergeAffinity anns host path server ups =
     (let sa = be_SessionAffinity ups;
          sa = (if AffinityType sa = '''' then sa\<lparr>AffinityType := sa_Type (ann_SessionAffinity anns)\<rparr> else sa);
          sa = (if AffinityMode sa = '''' then sa\<lparr>AffinityMode := sa_Mode (ann_SessionAffinity anns)\<rparr> else sa)
      in if sa_Type (ann_SessionAffinity anns) = ''cookie'' then
           (let cookie = sa_Cookie (ann_SessionAffinity anns);
                csa = (CookieSessionAffinity sa)
                        \<lparr>csa_Name := ck_Name cookie, csa_Expires := ck_Expires cookie,
                         csa_MaxAge := ck_MaxAge cookie, csa_Secure := ck_Secure cookie,
                         csa_Path := ck_Path cookie, csa_Domain := ck_Domain cookie,
                         csa_SameSite := ck_SameSite cookie,
                         csa_ConditionalSameSiteNone := ck_ConditionalSameSiteNone cookie,
                         csa_ChangeOnFailure := ck_ChangeOnFailure cookie\<rparr>
            in case csa_Locations csa of
                 None \<Rightarrow> Inl AssignmentToEntryInNilMap
               | Some locs \<Rightarrow>
                   (let locs = appendCookiePath host (hip_Path path) locs;
                        locs = fold (\<lambda>alias. appendCookiePath alias (hip_Path path)) (srv_Aliases server) locs
                    in Inr (ups\<lparr>be_SessionAffinity :=
                                   sa\<lparr>CookieSessionAffinity := csa\<lparr>csa_Locations := Some locs\<rparr>\<rparr>\<rparr>)))
         else Inr (ups\<lparr>be_SessionAffinity := sa\<rparr>))"

text \<open>
  Lines 217-336: one path of a rule. \<open>serverKey\<close> is the key of the entry that the
  pointer \<open>server\<close> points to.
\<close>

definition mergePath ::
  "NGINXController \<Rightarrow> Ingress \<Rightarrow> AnnotationsIngress \<Rightarrow> string \<Rightarrow> string \<Rightarrow> HTTPIngressPath \<Rightarrow>
   upstreams \<times> servers \<Rightarrow> go_panic + upstreams \<times> servers" where
  "mergePath n ing anns host serverKey path st =
     (case st of (upstreams, servers) \<Rightarrow>
        (case hip_Service path of
           None \<Rightarrow> Inr st
         | Some service \<Rightarrow>
             (let upsName = upstreamName (ext n) (ing_Namespace ing) service
              in case map_of upstreams upsName of
                   None \<Rightarrow> Inl NilPointerDereference
                 | Some ups \<Rightarrow>
                     if be_NoServer ups then Inr st
                     else
                       (case map_of servers serverKey of
                          None \<Rightarrow> Inl NilPointerDereference
                        | Some server \<Rightarrow>
                            (let server' = mergeLocation (ext n) ups ing anns path server
                             in case mergeAffinity anns host path server' ups of
                                  Inl e \<Rightarrow> Inl e
                                | Inr ups' \<Rightarrow>
                                    Inr (AList.update upsName ups' upstreams,
                                         AList.update serverKey server' servers))))))"

fun mergePaths ::
  "NGINXController \<Rightarrow> Ingress \<Rightarrow> AnnotationsIngress \<Rightarrow> string \<Rightarrow> string \<Rightarrow> HTTPIngressPath list \<Rightarrow>
   upstreams \<times> servers \<Rightarrow> go_panic + upstreams \<times> servers" where
  "mergePaths n ing anns host serverKey [] st = Inr st"
| "mergePaths n ing anns host serverKey (path # rest) st =
     (case mergePath n ing anns host serverKey path st of
        Inl e \<Rightarrow> Inl e
      | Inr st' \<Rightarrow> mergePaths n ing anns host serverKey rest st')"

text \<open>Lines 184-210: the TLS settings of the server, adopted when not yet set.\<close>

definition adoptTLS :: "NGINXController \<Rightarrow> AnnotationsIngress \<Rightarrow> Server \<Rightarrow> Server" where
  "adoptTLS n anns server =
     (let server = (if srv_AuthTLSError server = '''' \<and> atls_AuthTLSError (ann_CertificateAuth anns) \<noteq> ''''
                    then server\<lparr>srv_AuthTLSError := atls_AuthTLSError (ann_CertificateAuth anns)\<rparr>
                    else server);
          server = (if atls_CAFileName (srv_CertificateAuth server) = ''''
                    then server\<lparr>srv_CertificateAuth := ann_CertificateAuth anns\<rparr>
                    else server)
      in if \<not> ProxySSLLocationOnly (GetBackendConfiguration (store n))
         then (if pssl_CAFileName (srv_ProxySSL server) = ''''
               then server\<lparr>srv_ProxySSL := ann_ProxySSL anns\<rparr>
               else server)
         else server)"

text \<open>Lines 167-337: one rule of an ingress.\<close>

definition mergeRule ::
  "NGINXController \<Rightarrow> Ingress \<Rightarrow> AnnotationsIngress \<Rightarrow> IngressRule \<Rightarrow>
   upstreams \<times> servers \<Rightarrow> go_panic + upstreams \<times> servers" where
  "mergeRule n ing anns rule st =
     (case st of (upstreams, servers) \<Rightarrow>
        (let host = (if rule_Host rule = '''' then defServerName (ext n) else rule_Host rule);
             serverKey = (if map_of servers host = None then defServerName (ext n) else host)
         in if rule_HTTP rule = None \<and> host \<noteq> defServerName (ext n) then Inr st
            else
              (case map_of servers serverKey of
                 None \<Rightarrow> Inl NilPointerDereference
               | Some server \<Rightarrow>
                   (let servers = AList.update serverKey (adoptTLS n anns server) servers
                    in case rule_HTTP rule of
                         None \<Rightarrow> Inr (upstreams, servers)
                       | Some paths \<Rightarrow>
                           mergePaths n ing anns host serverKey paths (upstreams, servers)))))"

fun mergeRules ::
  "NGINXController \<Rightarrow> Ingress \<Rightarrow> AnnotationsIngress \<Rightarrow> IngressRule list \<Rightarrow>
   upstreams \<times> servers \<Rightarrow> go_panic + upstreams \<times> servers" where
  "mergeRules n ing anns [] st = Inr st"
| "mergeRules n ing anns (rule # rest) st =
     (case mergeRule n ing anns rule st of
        Inl e \<Rightarrow> Inl e
      | Inr st' \<Rightarrow> mergeRules n ing anns rest st')"

text \<open>
  Lines 160-165: \<open>dropSnippetDirectives\<close> works through the pointer to the
  annotations of the ingress, so the ingress of the caller changes with it.
\<close>

definition sanitizeIngress :: "NGINXController \<Rightarrow> Ingress \<Rightarrow> Ingress" where
  "sanitizeIngress n ing =
     (if \<not> AllowSnippetAnnotations (GetBackendConfiguration (store n))
      then ing\<lparr>ParsedAnnotations := dropSnippetDirectives (ext n) (ParsedAnnotations ing) (IngressKey (ext n) ing)\<rparr>
      else ing)"

text \<open>
  Lines 159-343: the loop over the ingresses. The state holds the ingresses visited
  so far as the loop left them, \<open>canaryIngresses\<close>, and the two registries.
\<close>

fun mergeIngresses ::
  "NGINXController \<Rightarrow> Ingress list \<Rightarrow> Ingress list \<times> Ingress list \<times> upstreams \<times> servers \<Rightarrow>
   go_panic + Ingress list \<times> Ingress list \<times> upstreams \<times> servers" where
  "mergeIngresses n [] st = Inr st"
| "mergeIngresses n (ing0 # rest) (visited, canaryIngresses, regs) =
     (let ing = sanitizeIngress n ing0;
          anns = ParsedAnnotations ing
      in case mergeRules n ing anns (ing_Rules ing) regs of
           Inl e \<Rightarrow> Inl e
         | Inr regs' \<Rightarrow>
             mergeIngresses n rest
               (visited @ [ing],
                (if ann_Canary_Enabled anns then canaryIngresses @ [ing] else canaryIngresses),
                regs'))"

subsection \<open>getBackendServers: the passes after the merge\<close>

text \<open>
  Lines 364-408: one Location of a Server, for one upstream. The result is the
  Location, the backends appended to \<open>aUpstreams\<close>, and whether the server was
  appended to \<open>isHTTPSfrom\<close>. Every \<open>continue\<close> leaves the Location as it is.
\<close>

definition locationPass ::
  "NGINXController \<Rightarrow> Backend \<Rightarrow> Server \<Rightarrow> Location \<Rightarrow> go_panic + Location \<times> Backend list \<times> bool" where
  "locationPass n upstream server location =
     (if \<not> shouldCreateUpstreamForLocationDefaultBackend (ext n) upstream location
      then Inr (location, [], False)
      else
        (case loc_DefaultBackend location of
           None \<Rightarrow> Inl NilPointerDereference
         | Some defaultBackend \<Rightarrow>
             (case Spec_Ports defaultBackend of
                [] \<Rightarrow> Inr (location, [], False)
              | sp # _ \<Rightarrow>
                  (case getEndpointsFromSlices (ext_lib (ext n)) (Some defaultBackend) (Some sp)
                          ProtocolTCP (zoneOf n defaultBackend) (GetServiceEndpointsSlices (store n)) of
                     Inl e \<Rightarrow> Inl e
                   | Inr endps \<Rightarrow>
                       (let name = ''custom-default-backend-'' @ svc_Namespace defaultBackend @ ''-'' @
                                   svc_Name defaultBackend;
                            nbs = (if endps \<noteq> [] then [upstream\<lparr>be_Name := name, be_Endpoints := endps\<rparr>]
                                   else []);
                            location = (if endps \<noteq> [] then
                                          (let location = location\<lparr>loc_DefaultBackendUpstreamName := name\<rparr>
                                           in if be_Endpoints upstream = []
                                              then location\<lparr>loc_Backend := name\<rparr> else location)
                                        else location)
                        in if srv_SSLPassthrough server \<and> loc_Path location = rootLocation
                           then (if loc_Backend location = defUpstreamName (ext n)
                                 then Inr (location, nbs, False)
                                 else Inr (location, nbs, True))
                           else Inr (location, nbs, False))))))"

text \<open>
  Lines 362-409: the locations of one server. A pointer to a Server is the key of its
  entry, so \<open>isHTTPSfrom\<close> holds keys.
\<close>

fun locationsPass ::
  "NGINXController \<Rightarrow> Backend \<Rightarrow> string \<Rightarrow> Server \<Rightarrow> Location list \<Rightarrow> Backend list \<times> string list \<Rightarrow>
   go_panic + Location list \<times> Backend list \<times> string list" where
  "locationsPass n upstream key server [] acc = Inr ([], acc)"
| "locationsPass n upstream key server (location # rest) (nbs, isHTTPSfrom) =
     (case locationPass n upstream server location of
        Inl e \<Rightarrow> Inl e
      | Inr (location', nb, https) \<Rightarrow>
          (case locationsPass n upstream key server rest
                  (nbs @ nb, (if https then isHTTPSfrom @ [key] else isHTTPSfrom)) of
             Inl e \<Rightarrow> Inl e
           | Inr (rest', acc) \<Rightarrow> Inr (location' # rest', acc)))"

text \<open>Lines 361-410: the servers, for one upstream.\<close>

fun serversPass ::
  "NGINXController \<Rightarrow> Backend \<Rightarrow> servers \<Rightarrow> Backend list \<times> string list \<Rightarrow>
   go_panic + servers \<times> Backend list \<times> string list" where
  "serversPass n upstream [] acc = Inr ([], acc)"
| "serversPass n upstream ((key, server) # rest) acc =
     (case locationsPass n upstream key server (srv_Locations server) acc of
        Inl e \<Rightarrow> Inl e
      | Inr (locations, acc') \<Rightarrow>
          (case serversPass n upstream rest acc' of
             Inl e \<Rightarrow> Inl e
           | Inr (rest', acc'') \<Rightarrow> Inr ((key, server\<lparr>srv_Locations := locations\<rparr>) # rest', acc'')))"

text \<open>
  Lines 353-415: the loop over the upstreams, \<open>aUpstreams\<close> being the accumulator.
  The upstream is appended as a pointer, so \<open>aUpstreams\<close> sees the flag set at the
  end of the iteration.
\<close>

fun upstreamsPass ::
  "NGINXController \<Rightarrow> upstreams \<Rightarrow> servers \<Rightarrow> Backend list \<Rightarrow> go_panic + servers \<times> Backend list" where
  "upstreamsPass n [] servers aUpstreams = Inr (servers, aUpstreams)"
| "upstreamsPass n ((key, upstream) # rest) servers aUpstreams =
     (if be_Name upstream = defUpstreamName (ext n)
      then upstreamsPass n rest servers (aUpstreams @ [upstream])
      else
        (case serversPass n upstream servers ([], []) of
           Inl e \<Rightarrow> Inl e
         | Inr (servers', nbs, isHTTPSfrom) \<Rightarrow>
             upstreamsPass n rest servers'
               (aUpstreams @
                [upstream\<lparr>be_SSLPassthrough := (isHTTPSfrom \<noteq> [] \<or> be_SSLPassthrough upstream)\<rparr>] @
                nbs)))"

text \<open>Lines 419-425: the two stable sorts of the locations of a server.\<close>

definition sortLocations :: "Location list \<Rightarrow> Location list" where
  "sortLocations locations =
     SliceStable (SliceStable locations (\<lambda>a b. loc_Path a > loc_Path b))
       (\<lambda>a b. length (loc_Path a) > length (loc_Path b))"

text \<open>
  getBackendServers. Beside the backends and the servers the model returns the
  ingresses as the pass left them.
\<close>

definition getBackendServers ::
  "NGINXController \<Rightarrow> Ingress list \<Rightarrow> go_panic + Ingress list \<times> Backend list \<times> Server list" where
  "getBackendServers n ingresses =
     (case getDefaultUpstream n of
        Inl e \<Rightarrow> Inl e
      | Inr du \<Rightarrow>
          (let upstreams = createUpstreams (ext n) ingresses du
           in case mergeIngresses n ingresses ([], [], createServers (ext n) ingresses upstreams du) of
                Inl e \<Rightarrow> Inl e
              | Inr (ingresses', canaryIngresses, regs) \<Rightarrow>
                  (let (upstreams, servers) =
                         (if nonCanaryIngressExists (ext n) ingresses' canaryIngresses
                          then fold (\<lambda>canaryIng (u, s). mergeAlternativeBackends (ext n) canaryIng u s)
                                 canaryIngresses regs
                          else regs)
                   in case upstreamsPass n upstreams servers [] of
                        Inl e \<Rightarrow> Inl e
                      | Inr (servers, aUpstreams) \<Rightarrow>
                          (let aServers = map (\<lambda>(key, value). value\<lparr>srv_Locations := sortLocations (srv_Locations value)\<rparr>)
                                            servers
                           in Inr (ingresses',
                                   SliceStable aUpstreams (\<lambda>a b. be_Name a < be_Name b),
                                   SliceStable aServers (\<lambda>a b. srv_Hostname a < srv_Hostname b))))))"

subsection \<open>getConfiguration\<close>

text \<open>Lines 228-240: the first root Location of a passthrough server.\<close>

fun passthroughOf :: "Server \<Rightarrow> Location list \<Rightarrow> SSLPassthroughBackend list" where
  "passthroughOf server [] = []"
| "passthroughOf server (loc # rest) =
     (if loc_Path loc \<noteq> rootLocation then passthroughOf server rest
      else [\<lparr>ptb_Service = loc_Service loc, ptb_Port = loc_Port loc,
             ptb_Backend = loc_Backend loc, ptb_Hostname = srv_Hostname server\<rparr>])"

text \<open>
  Lines 199-241: the loop over the servers; the state is the servers as the loop
  leaves them, \<open>hosts\<close> and \<open>passUpstreams\<close>.
\<close>

fun serversLoop ::
  "Server list \<Rightarrow> Server list \<times> string set \<times> SSLPassthroughBackend list \<Rightarrow>
   go_panic + Server list \<times> string set \<times> SSLPassthroughBackend list" where
  "serversLoop [] st = Inr st"
| "serversLoop (server # rest) (done, hosts, passUpstreams) =
     (case updateServerLocations (srv_Locations server) of
        Inl e \<Rightarrow> Inl e
      | Inr locations \<Rightarrow>
          (let server = server\<lparr>srv_Locations := locations\<rparr>;
               hosts = insert (srv_Hostname server) hosts \<union> set (srv_Aliases server)
           in if \<not> srv_SSLPassthrough server
              then serversLoop rest (done @ [server], hosts, passUpstreams)
              else serversLoop rest
                     (done @ [server], hosts,
                      passUpstreams @ passthroughOf server (srv_Locations server))))"

definition getConfiguration ::
  "NGINXController \<Rightarrow> Ingress list \<Rightarrow> go_panic + string set \<times> Server list \<times> Configuration" where
  "getConfiguration n ingresses =
     (case getBackendServers n ingresses of
        Inl e \<Rightarrow> Inl e
      | Inr (ingresses', upstreams, servers0) \<Rightarrow>
          (case serversLoop servers0 ([], {}, []) of
             Inl e \<Rightarrow> Inl e
           | Inr (servers, hosts, passUpstreams) \<Rightarrow>
               (case getStreamServices n (cfg_TCPConfigMapName (cfg n)) ProtocolTCP of
                  Inl e \<Rightarrow> Inl e
                | Inr tcp \<Rightarrow>
                    (case getStreamServices n (cfg_UDPConfigMapName (cfg n)) ProtocolUDP of
                       Inl e \<Rightarrow> Inl e
                     | Inr udp \<Rightarrow>
                         Inr (hosts, servers,
                              \<lparr>Backends = upstreams,
                               Servers = servers,
                               TCPEndpoints = tcp,
                               UDPEndpoints = udp,
                               PassthroughBackends = passUpstreams,
                               BackendConfigChecksum = Checksum (GetBackendConfiguration (store n)),
                               ConfigurationChecksum = '''',
                               DefaultSSLCertificate = getDefaultSSLCertificate n,
                               StreamSnippets = getStreamSnippets ingresses'\<rparr>)))))"

section \<open>An example controller\<close>

text \<open>
  Stand-ins for what src/ does not declare, for the examples: the reserved names of
  the default backend and the default server, the ports of package nginx, and
  functions that do on the example inputs what the spec says of the absent ones.
\<close>

definition ex_ParseNameNS :: "string \<Rightarrow> string + (string \<times> string)" where
  "ex_ParseNameNS input =
     (case Split input CHR ''/'' of
        [ns, name] \<Rightarrow> Inr (ns, name)
      | _ \<Rightarrow> Inl ''invalid format (namespace/name)'')"

definition ex_upstreamName :: "string \<Rightarrow> IngressServiceBackend \<Rightarrow> string" where
  "ex_upstreamName namespace service =
     namespace @ ''-'' @ isb_Name service @ ''-'' @
     (if isb_Port_Name service \<noteq> '''' then isb_Port_Name service
      else Itoa (sint (isb_Port_Number service)))"

definition ex_locationApplyAnnotations :: "Location \<Rightarrow> AnnotationsIngress \<Rightarrow> Location" where
  "ex_locationApplyAnnotations loc anns =
     loc\<lparr>loc_Redirect := ann_Redirect anns, loc_Rewrite := ann_Rewrite anns,
         loc_DefaultBackend := ann_DefaultBackend anns,
         loc_CustomHTTPErrors := ann_CustomHTTPErrors anns,
         loc_ConfigurationSnippet := ann_ConfigurationSnippet anns\<rparr>"

definition ex_dropSnippetDirectives :: "AnnotationsIngress \<Rightarrow> string \<Rightarrow> AnnotationsIngress" where
  "ex_dropSnippetDirectives anns ingKey =
     anns\<lparr>ann_ConfigurationSnippet := '''', ann_ServerSnippet := '''', ann_StreamSnippet := ''''\<rparr>"

definition ex_shouldCreate :: "Backend \<Rightarrow> Location \<Rightarrow> bool" where
  "ex_shouldCreate upstream location =
     (be_Name upstream = loc_Backend location \<and>
      (be_Endpoints upstream = [] \<or> loc_CustomHTTPErrors location \<noteq> []) \<and>
      loc_DefaultBackend location \<noteq> None)"

definition ex_backend :: "string \<Rightarrow> Backend" where
  "ex_backend name =
     zero_Backend\<lparr>be_Name := name,
        be_Port := \<lparr>Type = intstr_Int, IntVal = 80, StrVal = ''''\<rparr>,
        be_Endpoints := [\<lparr>Address = ''10.0.0.1'', Port = ''8080'', Target = None\<rparr>],
        be_SessionAffinity :=
          \<lparr>AffinityType = '''', AffinityMode = '''',
           CookieSessionAffinity = zero_CookieSessionAffinity\<lparr>csa_Locations := Some []\<rparr>\<rparr>\<rparr>"

definition ex_tls :: authtls_Config where
  "ex_tls = \<lparr>atls_Secret = '''', atls_CAFileName = '''', atls_AuthTLSError = ''''\<rparr>"

definition ex_pssl :: proxyssl_Config where
  "ex_pssl = \<lparr>pssl_Secret = '''', pssl_CAFileName = ''''\<rparr>"

text \<open>A Server as the ServerBuilder leaves it: one root Location to the default backend.\<close>

definition ex_server :: "string \<Rightarrow> bool \<Rightarrow> Server" where
  "ex_server hostname passthrough =
     \<lparr>srv_Hostname = hostname, srv_SSLPassthrough = passthrough, srv_SSLCert = None,
      srv_Locations = [zero_Location\<lparr>loc_Path := ''/'', loc_PathType := Some ''Prefix'',
                         loc_IsDefBackend := True, loc_Backend := ''upstream-default-backend''\<rparr>],
      srv_Aliases = [], srv_RedirectFromToWWW = False, srv_CertificateAuth = ex_tls,
      srv_ProxySSL = ex_pssl, srv_ServerSnippet = '''', srv_SSLCiphers = '''',
      srv_SSLPreferServerCiphers = '''', srv_AuthTLSError = ''''\<rparr>"

text \<open>
  The registries for ingresses that route the host example.com, a passthrough
  server, to the services ns/svc1 and ns/svc2 on port 80.
\<close>

definition ex_createUpstreams :: "Ingress list \<Rightarrow> Backend \<Rightarrow> upstreams" where
  "ex_createUpstreams ingresses du =
     [(''upstream-default-backend'', du),
      (''ns-svc1-80'', ex_backend ''ns-svc1-80''),
      (''ns-svc2-80'', ex_backend ''ns-svc2-80'')]"

definition ex_createServers :: "Ingress list \<Rightarrow> upstreams \<Rightarrow> Backend \<Rightarrow> upstreams \<times> servers" where
  "ex_createServers ingresses upstreams du =
     (upstreams, [(''_'', ex_server ''_'' False), (''example.com'', ex_server ''example.com'' True)])"

definition ex_ext :: externals where
  "ex_ext =
     \<lparr>ext_lib = stub_netlib,
      defUpstreamName = ''upstream-default-backend'',
      defServerName = ''_'',
      ProfilerPort = 10245,
      StatusPort = 10246,
      StreamPort = 10247,
      DefaultEndpoint = \<lparr>Address = ''127.0.0.1'', Port = ''8181'', Target = None\<rparr>,
      getIngressPodZone = (\<lambda>svc. ''zone-a''),
      ParseNameNS = ex_ParseNameNS,
      EqualFold = (\<lambda>s t. s = t \<or> (s = ''proxy'' \<and> t = ''PROXY'')),
      IngressKey = (\<lambda>ing. ing_Namespace ing @ ''/'' @ ing_Name ing),
      createUpstreams = ex_createUpstreams,
      createServers = ex_createServers,
      dropSnippetDirectives = ex_dropSnippetDirectives,
      upstreamName = ex_upstreamName,
      locationApplyAnnotations = ex_locationApplyAnnotations,
      nonCanaryIngressExists = (\<lambda>ingresses canaryIngresses. length canaryIngresses < length ingresses),
      mergeAlternativeBackends = (\<lambda>canaryIng upstreams servers. (upstreams, servers)),
      shouldCreateUpstreamForLocationDefaultBackend = ex_shouldCreate\<rparr>"

definition ex_headless :: Service where
  "ex_headless = ex_svc\<lparr>svc_Name := ''headless'', Spec_Ports := []\<rparr>"

definition ex_idle :: Service where
  "ex_idle = ex_svc\<lparr>svc_Name := ''idle''\<rparr>"

text \<open>
  The store of the examples: the services ns/svc (two slices, see above), ns/idle (no
  slice) and ns/headless (no port), and one ConfigMap of stream services.
\<close>

definition ex_store :: Storer where
  "ex_store =
     \<lparr>GetService = (\<lambda>key. if key = ''ns/svc'' then Inr ex_svc
                           else if key = ''ns/idle'' then Inr ex_idle
                           else if key = ''ns/headless'' then Inr ex_headless
                           else Inl ''not found''),
      GetConfigMap = (\<lambda>key. if key = ''ns/tcp-services''
                             then Inr [(''9000'', ''ns/svc:80''),
                                       (''80'', ''ns/svc:80''),
                                       (''abc'', ''ns/svc:80''),
                                       (''7000'', ''ns/svc:http:PROXY''),
                                       (''8000'', ''ns/idle:80''),
                                       (''10246'', ''ns/svc:80'')]
                             else Inl ''not found''),
      GetServiceEndpointsSlices = (\<lambda>key. if key = ''ns/svc'' then ex_dup_slices key else Inr []),
      GetLocalSSLCert = (\<lambda>name. Inl ''not found''),
      GetBackendConfiguration =
        \<lparr>AllowSnippetAnnotations = True, ProxySSLLocationOnly = False, Checksum = ''1''\<rparr>\<rparr>"

definition ex_cfg :: NginxConfiguration where
  "ex_cfg =
     \<lparr>cfg_DefaultService = '''',
      cfg_TCPConfigMapName = ''ns/tcp-services'',
      cfg_UDPConfigMapName = '''',
      cfg_DefaultSSLCertificate = '''',
      cfg_ListenPorts = \<lparr>lp_HTTP = 80, lp_HTTPS = 443, lp_SSLProxy = 442, lp_Health = 10254,
                         lp_Default = 8181\<rparr>,
      cfg_FakeCertificate = None,
      cfg_EnableTopologyAwareRouting = False\<rparr>"

definition ex_n :: NGINXController where
  "ex_n = \<lparr>cfg = ex_cfg, store = ex_store, ext = ex_ext\<rparr>"

text \<open>The two stream services that the example ConfigMap yields.\<close>

definition ex_l4 :: "int \<Rightarrow> string \<Rightarrow> bool \<Rightarrow> L4Service" where
  "ex_l4 port svcPort decode =
     \<lparr>l4_Port = port,
      l4_Backend = \<lparr>l4b_Port = FromString svcPort, l4b_Name = ''svc'', l4b_Namespace = ''ns'',
                    l4b_Protocol = ''TCP'',
                    l4b_ProxyProtocol = \<lparr>Decode = decode, Encode = False\<rparr>\<rparr>,
      l4_Endpoints = [ex_ups ''10.0.0.1'', ex_ups ''10.0.0.2''],
      l4_Service = Some ex_svc\<rparr>"

section \<open>Properties of getEndpointsFromSlices\<close>

subsection \<open>Keys of the deduplication set\<close>

lemma nat_digits_no_colon: "CHR '':'' \<notin> set (nat_digits n)"
proof (induction n rule: nat_digits.induct)
  case (1 n)
  have d: "digit_char k \<noteq> CHR '':''" if "k < 10" for k
  proof -
    have "digit_char k \<in> set ''0123456789''"
      unfolding digit_char_def using that by (intro nth_mem) simp
    then show ?thesis by auto
  qed
  show ?case
  proof (cases "n < 10")
    case True
    then show ?thesis using d [OF True] by (subst nat_digits.simps) (simp add: eq_commute)
  next
    case False
    then have "CHR '':'' \<notin> set (nat_digits (n div 10))" using 1 by simp
    moreover have "digit_char (n mod 10) \<noteq> CHR '':''" using d by simp
    ultimately show ?thesis using False by (subst nat_digits.simps) (simp add: eq_commute)
  qed
qed

lemma Itoa_no_colon: "CHR '':'' \<notin> set (Itoa i)"
  by (simp add: Itoa_def nat_digits_no_colon)

lemma split_last_sep:
  assumes "xs @ c # ys = xs' @ c # ys'" "c \<notin> set ys" "c \<notin> set ys'"
  shows "xs = xs' \<and> ys = ys'"
  using assms
proof (induction xs arbitrary: xs')
  case Nil
  then show ?case by (cases xs') auto
next
  case (Cons a xs)
  then show ?case by (cases xs') auto
qed

lemma JoinHostPort_bracketed: "JoinHostPort host port = bracketed host @ CHR '':'' # port"
  by (simp add: JoinHostPort_def bracketed_def)

lemma bracketed_inj: "bracketed a = bracketed b \<Longrightarrow> a = b"
  by (auto simp: bracketed_def split: if_splits)

text \<open>Two keys are equal only for the same address and the same port string.\<close>

lemma JoinHostPort_inj:
  assumes "JoinHostPort a p = JoinHostPort a' p'" "CHR '':'' \<notin> set p" "CHR '':'' \<notin> set p'"
  shows "a = a' \<and> p = p'"
proof -
  from assms have "bracketed a = bracketed a' \<and> p = p'"
    unfolding JoinHostPort_bracketed by (intro split_last_sep) auto
  then show ?thesis using bracketed_inj by blast
qed

subsection \<open>The emitting loops keep the invariant\<close>

lemma emitAddresses_inv:
  "ups_inv st \<Longrightarrow>
   ups_inv (emitAddresses ep q addrs st) \<and>
   pairsOf (fst (emitAddresses ep q addrs st)) = pairsOf (fst st) \<union> (\<lambda>a. (a, Sprintf_v q)) ` set addrs"
proof (induction addrs arbitrary: st)
  case Nil
  then show ?case by simp
next
  case (Cons a addrs)
  obtain ups processed where st: "st = (ups, processed)" by (cases st)
  let ?hp = "JoinHostPort a (Itoa (sint q))"
  let ?e = "\<lparr>Address = a, Port = Sprintf_v q, Target = TargetRef ep\<rparr>"
  show ?case
  proof (cases "?hp \<in> processed")
    case True
    then obtain e where e: "e \<in> set ups" "hostPortOf e = ?hp"
      using Cons.prems st by (auto simp: ups_inv_def)
    then have "CHR '':'' \<notin> set (Port e)" using Cons.prems st by (auto simp: ups_inv_def)
    with e have "Address e = a \<and> Port e = Itoa (sint q)"
      unfolding hostPortOf_def by (intro JoinHostPort_inj) (auto simp: Itoa_no_colon)
    then have "(a, Sprintf_v q) \<in> pairsOf ups"
      using e by (force simp: pairsOf_def Sprintf_v_def)
    then show ?thesis using Cons.IH [OF Cons.prems] True st by auto
  next
    case False
    have hp: "hostPortOf ?e = ?hp" by (simp add: hostPortOf_def Sprintf_v_def)
    have inv': "ups_inv (ups @ [?e], insert ?hp processed)"
      using Cons.prems False st hp
      by (auto simp: ups_inv_def Sprintf_v_def Itoa_no_colon)
    have "pairsOf (ups @ [?e]) = pairsOf ups \<union> {(a, Sprintf_v q)}"
      by (auto simp: pairsOf_def)
    then show ?thesis using Cons.IH [OF inv'] False st by auto
  qed
qed

lemma emitPorts_inv:
  "ups_inv st \<Longrightarrow>
   ups_inv (emitPorts ep ports st) \<and>
   pairsOf (fst (emitPorts ep ports st)) =
     pairsOf (fst st) \<union> {(a, Sprintf_v q) | a q. a \<in> set (Addresses ep) \<and> q \<in> set ports}"
proof (induction ports arbitrary: st)
  case Nil
  then show ?case by simp
next
  case (Cons q ports)
  from emitAddresses_inv [OF Cons.prems, of ep q "Addresses ep"]
  have 1: "ups_inv (emitAddresses ep q (Addresses ep) st)"
    and 2: "pairsOf (fst (emitAddresses ep q (Addresses ep) st)) =
            pairsOf (fst st) \<union> (\<lambda>a. (a, Sprintf_v q)) ` set (Addresses ep)" by auto
  from Cons.IH [OF 1] 2 show ?case by auto
qed

lemma emitEndpoints_inv:
  "ups_inv st \<Longrightarrow> emitEndpoints useHints zone ports endpoints st = Inr st' \<Longrightarrow>
   ups_inv st' \<and>
   pairsOf (fst st') =
     pairsOf (fst st) \<union> {(a, Sprintf_v q) | a q ep. ep \<in> set endpoints \<and>
        endpointKept useHints zone ep \<and> a \<in> set (Addresses ep) \<and> q \<in> set ports}"
proof (induction endpoints arbitrary: st)
  case Nil
  then show ?case by simp
next
  case (Cons ep endpoints)
  show ?case
  proof (cases "endpointKept useHints zone ep")
    case True
    then have run: "emitEndpoints useHints zone ports endpoints (emitPorts ep ports st) = Inr st'"
      using Cons.prems(2) by (auto simp: endpointKept_def epHasZone_def split: if_splits)
    from emitPorts_inv [OF Cons.prems(1), of ep ports]
    have 1: "ups_inv (emitPorts ep ports st)"
      and 2: "pairsOf (fst (emitPorts ep ports st)) =
        pairsOf (fst st) \<union> {(a, Sprintf_v q) | a q. a \<in> set (Addresses ep) \<and> q \<in> set ports}"
      by auto
    from Cons.IH [OF 1 run] 2 True show ?thesis by auto
  next
    case False
    then have run: "emitEndpoints useHints zone ports endpoints st = Inr st'"
      using Cons.prems(2)
      by (auto simp: endpointKept_def epHasZone_def split: if_splits option.splits)
    from Cons.IH [OF Cons.prems(1) run] False show ?thesis by auto
  qed
qed

lemma emitSlices_inv:
  "ups_inv st \<Longrightarrow> emitSlices lib port proto utd zone epss st = Inr st' \<Longrightarrow>
   ups_inv st' \<and>
   pairsOf (fst st') =
     pairsOf (fst st) \<union> {(a, Sprintf_v q) | a q eps ep ports. eps \<in> set epss \<and>
        candidatePorts port proto eps = Inr ports \<and>
        ep \<in> set (eps_Endpoints eps) \<and>
        endpointKept (useTopologyHints lib utd zone eps) zone ep \<and>
        a \<in> set (Addresses ep) \<and> q \<in> set ports}"
proof (induction epss arbitrary: st)
  case Nil
  then show ?case by simp
next
  case (Cons eps epss)
  from Cons.prems(2) obtain ports st1 where
    ports: "candidatePorts port proto eps = Inr ports"
    and st1: "emitEndpoints (useTopologyHints lib utd zone eps) zone ports (eps_Endpoints eps) st = Inr st1"
    and rest: "emitSlices lib port proto utd zone epss st1 = Inr st'"
    by (auto split: sum.splits)
  from emitEndpoints_inv [OF Cons.prems(1) st1]
  have 1: "ups_inv st1"
    and 2: "pairsOf (fst st1) = pairsOf (fst st) \<union> {(a, Sprintf_v q) | a q ep.
        ep \<in> set (eps_Endpoints eps) \<and> endpointKept (useTopologyHints lib utd zone eps) zone ep \<and>
        a \<in> set (Addresses ep) \<and> q \<in> set ports}" by auto
  from Cons.IH [OF 1 rest] have 3: "ups_inv st'" and 4: "pairsOf (fst st') =
     pairsOf (fst st1) \<union> {(a, Sprintf_v q) | a q eps ep ports. eps \<in> set epss \<and>
        candidatePorts port proto eps = Inr ports \<and>
        ep \<in> set (eps_Endpoints eps) \<and>
        endpointKept (useTopologyHints lib utd zone eps) zone ep \<and>
        a \<in> set (Addresses ep) \<and> q \<in> set ports}" by auto
  show ?case
  proof
    show "ups_inv st'" by (rule 3)
    show "pairsOf (fst st') = pairsOf (fst st) \<union> {(a, Sprintf_v q) | a q eps' ep ports.
        eps' \<in> set (eps # epss) \<and>
        candidatePorts port proto eps' = Inr ports \<and>
        ep \<in> set (eps_Endpoints eps') \<and>
        endpointKept (useTopologyHints lib utd zone eps') zone ep \<and>
        a \<in> set (Addresses ep) \<and> q \<in> set ports}"
      unfolding 4 2 using ports by (auto; blast)
  qed
qed

subsection \<open>Evaluating the resolver on the examples\<close>

lemmas ex_defs = stub_netlib_def ex_port_def ex_svc_def ex_external_def ex_epport_def
  ex_endpoint_def ex_slice_def ex_ups_def ex_dup_slices_def ex_zone_slices_def
  ex_ready_slices_def

lemmas resolver_defs = getEndpointsFromSlices_def candidatePorts_def useTopologyHints_def
  foundEndpointsForZone_def allHaveZoneHints_def epHasZone_def
  ServiceTypeExternalName_def ServiceTrafficDistributionPreferClose_def
  JoinHostPort_def Sprintf_v_def Itoa_def nat_digits.simps digit_char_def
  ProtocolTCP_def IntValue_def TrimSuffix_def HasSuffix_def

lemma ex_dup_slices_run:
  "getEndpointsFromSlices stub_netlib (Some ex_svc) (Some ex_port) ProtocolTCP '''' ex_dup_slices
   = Inr [ex_ups ''10.0.0.1'', ex_ups ''10.0.0.2'']"
  by (simp add: ex_defs resolver_defs)

lemma ex_ready_slices_run:
  "getEndpointsFromSlices stub_netlib (Some ex_svc) (Some ex_port) ProtocolTCP ''''
     (\<lambda>key. Inr ex_ready_slices)
   = Inr [ex_ups ''10.0.0.5'', ex_ups ''10.0.0.7'']"
  by (simp add: ex_defs resolver_defs)

lemma ex_external_run:
  "getEndpointsFromSlices stub_netlib (Some (ex_external ''db.example.com.'')) (Some ex_port)
     ProtocolTCP '''' ex_dup_slices
   = Inr [\<lparr>Address = ''db.example.com.'', Port = ''8080'', Target = None\<rparr>]"
  by (simp add: ex_defs resolver_defs)

subsection \<open>Deduplication\<close>

text \<open>
  Claim C7. For every service, port and set of slices, the Endpoint list that
  getEndpointsFromSlices returns holds no two entries with the same address and
  port, whether the pair comes from several slices or from several candidate
  target ports.
\<close>

theorem getEndpointsFromSlices_no_duplicates:
  assumes "getEndpointsFromSlices lib s port proto zoneForHints getServiceEndpointsSlices = Inr ups"
  shows "distinct (map (\<lambda>e. (Address e, Port e)) ups)"
proof -
  have inv0: "ups_inv ([], {})" by (simp add: ups_inv_def)
  have "distinct (map hostPortOf ups)"
    using assms emitSlices_inv [OF inv0]
    unfolding getEndpointsFromSlices_def
    by (auto simp: Let_def ups_inv_def split: option.splits if_splits sum.splits prod.splits)
  moreover have "map hostPortOf ups =
      map (\<lambda>(a, p). JoinHostPort a p) (map (\<lambda>e. (Address e, Port e)) ups)"
    by (simp add: hostPortOf_def)
  ultimately show ?thesis by (simp only: distinct_map)
qed

theorem getEndpointsFromSlices_no_duplicates_witness:
  "getEndpointsFromSlices stub_netlib (Some ex_svc) (Some ex_port) ProtocolTCP '''' ex_dup_slices
     = Inr [ex_ups ''10.0.0.1'', ex_ups ''10.0.0.2''] \<and>
   distinct (map (\<lambda>e. (Address e, Port e)) [ex_ups ''10.0.0.1'', ex_ups ''10.0.0.2''])"
  using getEndpointsFromSlices_no_duplicates [OF ex_dup_slices_run] ex_dup_slices_run
  by simp

subsection \<open>ExternalName services\<close>

text \<open>
  Claim C8. For an ExternalName service the result is the empty list when the
  external name is "localhost", parses as a loopback IP, or is not an IP and, with
  one trailing dot removed, is not a DNS-1123 subdomain; otherwise it is the single
  Endpoint with the external name as address and the numeric value of the target
  port as port. The slice lookup does not occur in the result, and the result is
  never a panic.
\<close>

theorem getEndpointsFromSlices_ExternalName:
  assumes "Spec_Type s = ServiceTypeExternalName"
  shows "getEndpointsFromSlices lib (Some s) (Some port) proto zoneForHints getServiceEndpointsSlices =
         (if Spec_ExternalName s = ''localhost'' \<or>
             (\<exists>ip. ParseIP lib (Spec_ExternalName s) = Some ip \<and> IsLoopback lib ip) \<or>
             (ParseIP lib (Spec_ExternalName s) = None \<and>
              IsDNS1123Subdomain lib (TrimSuffix (Spec_ExternalName s) ''.'') \<noteq> [])
          then Inr []
          else Inr [\<lparr>Address = Spec_ExternalName s,
                     Port = Itoa (IntValue (sp_TargetPort port)), Target = None\<rparr>])"
  using assms unfolding getEndpointsFromSlices_def
  by (auto simp: Let_def split: option.splits)

theorem getEndpointsFromSlices_ExternalName_witness:
  "getEndpointsFromSlices stub_netlib (Some (ex_external ''localhost'')) (Some ex_port)
     ProtocolTCP '''' ex_dup_slices = Inr [] \<and>
   getEndpointsFromSlices stub_netlib (Some (ex_external ''127.0.0.1'')) (Some ex_port)
     ProtocolTCP '''' ex_dup_slices = Inr [] \<and>
   getEndpointsFromSlices stub_netlib (Some (ex_external ''bad_name'')) (Some ex_port)
     ProtocolTCP '''' ex_dup_slices = Inr [] \<and>
   getEndpointsFromSlices stub_netlib (Some (ex_external ''db.example.com.'')) (Some ex_port)
     ProtocolTCP '''' ex_dup_slices
     = Inr [\<lparr>Address = ''db.example.com.'', Port = ''8080'', Target = None\<rparr>]"
  using getEndpointsFromSlices_ExternalName
          [of "ex_external ''localhost''" stub_netlib ex_port ProtocolTCP "''''" ex_dup_slices]
        getEndpointsFromSlices_ExternalName
          [of "ex_external ''127.0.0.1''" stub_netlib ex_port ProtocolTCP "''''" ex_dup_slices]
        getEndpointsFromSlices_ExternalName
          [of "ex_external ''bad_name''" stub_netlib ex_port ProtocolTCP "''''" ex_dup_slices]
        getEndpointsFromSlices_ExternalName
          [of "ex_external ''db.example.com.''" stub_netlib ex_port ProtocolTCP "''''" ex_dup_slices]
  by (simp add: ex_defs resolver_defs)

subsection \<open>Readiness\<close>

text \<open>
  Claim C10. An address and port are in the result exactly when some endpoint of
  some slice offers them whose Ready condition is not explicitly false (unset
  counts as ready) and which passes the zone filter of its slice when that filter
  is on: the readiness test excludes an endpoint only when Ready is set to false.
\<close>

theorem getEndpointsFromSlices_readiness:
  assumes "getEndpointsFromSlices lib (Some s) (Some port) proto zoneForHints getServiceEndpointsSlices = Inr ups"
    and "Spec_Type s \<noteq> ServiceTypeExternalName"
    and "getServiceEndpointsSlices (MetaNamespaceKey lib s) = Inr epss"
  shows "(a, p) \<in> set (map (\<lambda>e. (Address e, Port e)) ups) \<longleftrightarrow>
         (\<exists>eps\<in>set epss. \<exists>ep\<in>set (eps_Endpoints eps). \<exists>ports.
            candidatePorts port proto eps = Inr ports \<and>
            Ready ep \<noteq> Some False \<and>
            (useTopologyHints lib (Spec_TrafficDistribution s = Some ServiceTrafficDistributionPreferClose)
               zoneForHints eps \<longrightarrow>
             (\<exists>forZones. Hints ep = Some forZones \<and> zoneForHints \<in> set forZones)) \<and>
            a \<in> set (Addresses ep) \<and> p \<in> Sprintf_v ` set ports)"
proof -
  let ?utd = "Spec_TrafficDistribution s = Some ServiceTrafficDistributionPreferClose"
  have inv0: "ups_inv ([], {})" by (simp add: ups_inv_def)
  from assms obtain processed where
    run: "emitSlices lib port proto ?utd zoneForHints epss ([], {}) = Inr (ups, processed)"
    unfolding getEndpointsFromSlices_def
    by (auto simp: Let_def split: sum.splits prod.splits)
  from emitSlices_inv [OF inv0 run]
  have "pairsOf ups = {(a, Sprintf_v q) | a q eps ep ports. eps \<in> set epss \<and>
        candidatePorts port proto eps = Inr ports \<and>
        ep \<in> set (eps_Endpoints eps) \<and>
        endpointKept (useTopologyHints lib ?utd zoneForHints eps) zoneForHints ep \<and>
        a \<in> set (Addresses ep) \<and> q \<in> set ports}"
    by (simp add: pairsOf_def)
  then have "(a, p) \<in> pairsOf ups \<longleftrightarrow>
        (\<exists>q eps ep ports. p = Sprintf_v q \<and> eps \<in> set epss \<and>
        candidatePorts port proto eps = Inr ports \<and>
        ep \<in> set (eps_Endpoints eps) \<and>
        endpointKept (useTopologyHints lib ?utd zoneForHints eps) zoneForHints ep \<and>
        a \<in> set (Addresses ep) \<and> q \<in> set ports)"
    by auto
  then show ?thesis
    unfolding pairsOf_def endpointKept_def set_map by (auto; blast)
qed

theorem getEndpointsFromSlices_readiness_witness:
  "getEndpointsFromSlices stub_netlib (Some ex_svc) (Some ex_port) ProtocolTCP ''''
     (\<lambda>key. Inr ex_ready_slices) = Inr [ex_ups ''10.0.0.5'', ex_ups ''10.0.0.7''] \<and>
   Spec_Type ex_svc \<noteq> ServiceTypeExternalName \<and>
   (''10.0.0.5'', ''8080'') \<in> set (map (\<lambda>e. (Address e, Port e)) [ex_ups ''10.0.0.5'', ex_ups ''10.0.0.7'']) \<and>
   (\<exists>eps\<in>set ex_ready_slices. \<exists>ep\<in>set (eps_Endpoints eps).
      Ready ep = None \<and> ''10.0.0.5'' \<in> set (Addresses ep)) \<and>
   (''10.0.0.6'', ''8080'') \<notin> set (map (\<lambda>e. (Address e, Port e)) [ex_ups ''10.0.0.5'', ex_ups ''10.0.0.7''])"
proof -
  have ty: "Spec_Type ex_svc \<noteq> ServiceTypeExternalName"
    by (simp add: ex_defs ServiceTypeExternalName_def)
  have sl: "(\<lambda>key. Inr ex_ready_slices) (MetaNamespaceKey stub_netlib ex_svc) = Inr ex_ready_slices"
    by simp
  note r = getEndpointsFromSlices_readiness [OF ex_ready_slices_run ty sl]
  have "(''10.0.0.5'', ''8080'') \<in> set (map (\<lambda>e. (Address e, Port e)) [ex_ups ''10.0.0.5'', ex_ups ''10.0.0.7''])"
    unfolding r [of "''10.0.0.5''" "''8080''"]
    by (simp add: ex_defs resolver_defs)
  moreover have "(''10.0.0.6'', ''8080'') \<notin> set (map (\<lambda>e. (Address e, Port e)) [ex_ups ''10.0.0.5'', ex_ups ''10.0.0.7''])"
    unfolding r [of "''10.0.0.6''" "''8080''"]
    by (simp add: ex_defs resolver_defs)
  moreover have "\<exists>eps\<in>set ex_ready_slices. \<exists>ep\<in>set (eps_Endpoints eps).
      Ready ep = None \<and> ''10.0.0.5'' \<in> set (Addresses ep)"
    by (simp add: ex_defs)
  ultimately show ?thesis using ex_ready_slices_run ty by blast
qed

subsection \<open>Zone hints\<close>

text \<open>
  Claim C3. The claim asks for the full unfiltered endpoint set as soon as one
  endpoint of any slice of the service lacks a zone hint. The loop decides
  \<open>useTopologyHints\<close> anew for every slice, from the endpoints of that slice alone:
  here the endpoint 10.0.0.2 of the second slice has no hint, and the endpoint
  10.0.0.3 of the first slice, hinted for another zone, is filtered out all the same.
\<close>

theorem getEndpointsFromSlices_zone_filter_per_slice:
  "getEndpointsFromSlices stub_netlib (Some ex_svc) (Some ex_port) ProtocolTCP ''zone-a'' ex_zone_slices
   = Inr [ex_ups ''10.0.0.1'', ex_ups ''10.0.0.2'']"
  by (simp add: ex_defs resolver_defs)

section \<open>Properties of updateServerLocations\<close>
lemma exactLocationsOf_dom:
  "exactLocationsOf locations m = Inr m' \<Longrightarrow>
   (\<forall>l\<in>set locations. loc_PathType l \<noteq> None) \<and>
   (\<forall>p. m' p \<noteq> None \<longleftrightarrow> m p \<noteq> None \<or> hasExactAt locations p)"
proof (induction locations arbitrary: m)
  case Nil
  then show ?case by (simp add: hasExactAt_def)
next
  case (Cons l locations)
  then show ?case
    by (auto simp: hasExactAt_def split: option.splits if_splits)
qed

lemma updateLocations_concat:
  "\<forall>l\<in>set locations. loc_PathType l \<noteq> None \<Longrightarrow>
   updateLocations ex locations acc = Inr (acc @ concat (map (updatedLocation ex) locations))"
proof (induction locations arbitrary: acc)
  case Nil
  then show ?case by simp
next
  case (Cons l locations)
  then obtain t where t: "loc_PathType l = Some t" by auto
  from Cons have IH: "\<And>acc. updateLocations ex locations acc =
      Inr (acc @ concat (map (updatedLocation ex) locations))" by simp
  have step: "updateLocations ex (l # locations) acc =
      updateLocations ex locations (acc @ updatedLocation ex l)"
    by (simp add: t updatedLocation_def Let_def needsRewrite_def)
  show ?case unfolding step IH by simp
qed

lemma HasSuffix_slash: "HasSuffix path ''/'' \<longleftrightarrow> path \<noteq> [] \<and> last path = CHR ''/''"
proof (cases path rule: rev_cases)
  case Nil
  then show ?thesis by (simp add: HasSuffix_def)
next
  case (snoc ys y)
  then show ?thesis by (auto simp: HasSuffix_def)
qed

lemma normalizePrefixPath_slash:
  "path \<noteq> rootLocation \<Longrightarrow> normalizePrefixPath path = withTrailingSlash path"
  by (simp add: normalizePrefixPath_def withTrailingSlash_def HasSuffix_slash)

text \<open>
  Claim C6. When updateServerLocations returns, its result is the concatenation of
  what each Location becomes. A Location with path "/" stays as it is, alone. A
  non-root Prefix Location with no rewrite target and no regex flag becomes, when no
  Exact Location of the input has its path, two Locations: itself with a "/" added to
  the path if missing, and a sibling with the unmodified path and type Exact; when
  an Exact Location has its path, only the first of the two. Both carry the original
  path as IngressPath.
\<close>

theorem updateServerLocations_split:
  assumes "updateServerLocations locations = Inr newLocations"
  shows "\<exists>f. newLocations = concat (map f locations) \<and>
           (\<forall>l. loc_Path l = rootLocation \<longrightarrow> f l = [l]) \<and>
           (\<forall>l. loc_Path l \<noteq> rootLocation \<and> loc_PathType l = Some pathTypePrefix \<and>
                 Target (loc_Rewrite l) = '''' \<and> \<not> UseRegex (loc_Rewrite l) \<longrightarrow>
                 f l = (if hasExactAt locations (loc_Path l)
                        then [l\<lparr>loc_IngressPath := loc_Path l,
                                loc_Path := withTrailingSlash (loc_Path l)\<rparr>]
                        else [l\<lparr>loc_IngressPath := loc_Path l,
                                loc_Path := withTrailingSlash (loc_Path l)\<rparr>,
                              l\<lparr>loc_IngressPath := loc_Path l,
                                loc_PathType := Some pathTypeExact\<rparr>]))"
proof -
  from assms obtain ex where ex: "exactLocationsOf locations Map.empty = Inr ex"
    and run: "updateLocations ex locations [] = Inr newLocations"
    by (auto simp: updateServerLocations_def split: sum.splits)
  from exactLocationsOf_dom [OF ex]
  have nonnil: "\<forall>l\<in>set locations. loc_PathType l \<noteq> None"
    and dom: "\<And>p. ex p \<noteq> None \<longleftrightarrow> hasExactAt locations p" by auto
  from updateLocations_concat [OF nonnil, of ex "[]"] run
  have 1: "newLocations = concat (map (updatedLocation ex) locations)" by simp
  have 2: "\<forall>l. loc_Path l = rootLocation \<longrightarrow> updatedLocation ex l = [l]"
    by (simp add: updatedLocation_def)
  have 3: "\<forall>l. loc_Path l \<noteq> rootLocation \<and> loc_PathType l = Some pathTypePrefix \<and>
                 Target (loc_Rewrite l) = '''' \<and> \<not> UseRegex (loc_Rewrite l) \<longrightarrow>
                 updatedLocation ex l = (if hasExactAt locations (loc_Path l)
                        then [l\<lparr>loc_IngressPath := loc_Path l,
                                loc_Path := withTrailingSlash (loc_Path l)\<rparr>]
                        else [l\<lparr>loc_IngressPath := loc_Path l,
                                loc_Path := withTrailingSlash (loc_Path l)\<rparr>,
                              l\<lparr>loc_IngressPath := loc_Path l,
                                loc_PathType := Some pathTypeExact\<rparr>])"
    using dom by (auto simp: updatedLocation_def needsRewrite_def normalizePrefixPath_slash)
  from 1 2 3 show ?thesis by blast
qed

lemma ex_locations_run:
  "updateServerLocations ex_locations =
     Inr [ex_location ''/'' ''Prefix'',
          (ex_location ''/api/'' ''Prefix'')\<lparr>loc_IngressPath := ''/api''\<rparr>,
          (ex_location ''/api'' ''Exact'')\<lparr>loc_IngressPath := ''/api''\<rparr>,
          (ex_location ''/login'' ''Exact'')\<lparr>loc_IngressPath := ''/login''\<rparr>,
          (ex_location ''/login/'' ''Prefix'')\<lparr>loc_IngressPath := ''/login''\<rparr>]"
  by code_simp

lemma ex_hasExactAt: "hasExactAt ex_locations ''/login''" "\<not> hasExactAt ex_locations ''/api''"
  by code_simp+

lemma ex_location_fields:
  "loc_Path (ex_location p t) = p" "loc_PathType (ex_location p t) = Some t"
  "Target (loc_Rewrite (ex_location p t)) = ''''" "\<not> UseRegex (loc_Rewrite (ex_location p t))"
  by (simp_all add: ex_location_def zero_Location_def)

lemma ex_location_updates:
  "(ex_location p t)\<lparr>loc_IngressPath := q, loc_Path := p'\<rparr> = (ex_location p' t)\<lparr>loc_IngressPath := q\<rparr>"
  "(ex_location p t)\<lparr>loc_IngressPath := q, loc_PathType := Some t'\<rparr> = (ex_location p t')\<lparr>loc_IngressPath := q\<rparr>"
  by (simp_all add: ex_location_def)

theorem updateServerLocations_split_witness:
  "updateServerLocations ex_locations =
     Inr [ex_location ''/'' ''Prefix'',
          (ex_location ''/api/'' ''Prefix'')\<lparr>loc_IngressPath := ''/api''\<rparr>,
          (ex_location ''/api'' ''Exact'')\<lparr>loc_IngressPath := ''/api''\<rparr>,
          (ex_location ''/login'' ''Exact'')\<lparr>loc_IngressPath := ''/login''\<rparr>,
          (ex_location ''/login/'' ''Prefix'')\<lparr>loc_IngressPath := ''/login''\<rparr>] \<and>
   (\<exists>f. f (ex_location ''/'' ''Prefix'') = [ex_location ''/'' ''Prefix''] \<and>
        f (ex_location ''/api'' ''Prefix'') =
          [(ex_location ''/api/'' ''Prefix'')\<lparr>loc_IngressPath := ''/api''\<rparr>,
           (ex_location ''/api'' ''Exact'')\<lparr>loc_IngressPath := ''/api''\<rparr>] \<and>
        f (ex_location ''/login'' ''Prefix'') =
          [(ex_location ''/login/'' ''Prefix'')\<lparr>loc_IngressPath := ''/login''\<rparr>])"
proof -
  from updateServerLocations_split [OF ex_locations_run]
  obtain f where f:
    "[ex_location ''/'' ''Prefix'',
      (ex_location ''/api/'' ''Prefix'')\<lparr>loc_IngressPath := ''/api''\<rparr>,
      (ex_location ''/api'' ''Exact'')\<lparr>loc_IngressPath := ''/api''\<rparr>,
      (ex_location ''/login'' ''Exact'')\<lparr>loc_IngressPath := ''/login''\<rparr>,
      (ex_location ''/login/'' ''Prefix'')\<lparr>loc_IngressPath := ''/login''\<rparr>] =
       concat (map f ex_locations) \<and>
     (\<forall>l. loc_Path l = rootLocation \<longrightarrow> f l = [l]) \<and>
     (\<forall>l. loc_Path l \<noteq> rootLocation \<and> loc_PathType l = Some pathTypePrefix \<and>
          Target (loc_Rewrite l) = [] \<and> \<not> UseRegex (loc_Rewrite l) \<longrightarrow>
          f l = (if hasExactAt ex_locations (loc_Path l)
                 then [l\<lparr>loc_IngressPath := loc_Path l,
                         loc_Path := withTrailingSlash (loc_Path l)\<rparr>]
                 else [l\<lparr>loc_IngressPath := loc_Path l,
                         loc_Path := withTrailingSlash (loc_Path l)\<rparr>,
                       l\<lparr>loc_IngressPath := loc_Path l,
                         loc_PathType := Some pathTypeExact\<rparr>]))" ..
  note root = f [THEN conjunct2, THEN conjunct1, rule_format]
  note split = f [THEN conjunct2, THEN conjunct2, rule_format]
  have 1: "f (ex_location ''/'' ''Prefix'') = [ex_location ''/'' ''Prefix'']"
    by (rule root) (simp add: ex_location_fields rootLocation_def)
  have 2: "f (ex_location ''/api'' ''Prefix'') =
          [(ex_location ''/api/'' ''Prefix'')\<lparr>loc_IngressPath := ''/api''\<rparr>,
           (ex_location ''/api'' ''Exact'')\<lparr>loc_IngressPath := ''/api''\<rparr>]"
    by (subst split)
       (simp_all add: ex_location_fields ex_location_updates ex_hasExactAt rootLocation_def
          pathTypePrefix_def pathTypeExact_def withTrailingSlash_def)
  have 3: "f (ex_location ''/login'' ''Prefix'') =
          [(ex_location ''/login/'' ''Prefix'')\<lparr>loc_IngressPath := ''/login''\<rparr>]"
    by (subst split)
       (simp_all add: ex_location_fields ex_location_updates ex_hasExactAt rootLocation_def
          pathTypePrefix_def pathTypeExact_def withTrailingSlash_def)
  show ?thesis
    by (intro conjI exI [of _ f]) (rule ex_locations_run 1 2 3)+
qed

end
